theory Spec2Isabelle
  imports Main
begin

section \<open>Strings\<close>

text \<open>
  A JavaScript string is modelled as a \<^typ>\<open>string\<close>: the list of the bytes of its
  UTF-8 encoding, which is also what is written to a file. A value that may be
  \<^verbatim>\<open>undefined\<close> is an \<^typ>\<open>'a option\<close>.
\<close>

text \<open>
  \<^verbatim>\<open>String.prototype.toLocaleLowerCase\<close> lowers a string by the rules of the locale
  of the host. On the letters of ASCII the locales differ in one point: Turkish and
  Azerbaijani lower \<^verbatim>\<open>I\<close> to the dotless i (U+0131, the bytes C4 B1), every other
  locale lowers it to \<^verbatim>\<open>i\<close>. The letters \<^verbatim>\<open>A\<close>..\<^verbatim>\<open>Z\<close> become
  \<^verbatim>\<open>a\<close>..\<^verbatim>\<open>z\<close>; the bytes of characters outside ASCII are kept as they are
  (the namespaces of the CloudFormation specification are ASCII).
\<close>

datatype language = Turkic | NotTurkic

definition lower_char :: "language \<Rightarrow> char \<Rightarrow> string" where
  "lower_char loc c =
     (if loc = Turkic \<and> c = CHR ''I'' then [CHR 0xC4, CHR 0xB1]
      else
        case map_of (zip ''ABCDEFGHIJKLMNOPQRSTUVWXYZ'' ''abcdefghijklmnopqrstuvwxyz'') c of
          Some l \<Rightarrow> [l]
        | None \<Rightarrow> [c])"

definition toLocaleLowerCase :: "language \<Rightarrow> string \<Rightarrow> string" where
  "toLocaleLowerCase loc s = concat (map (lower_char loc) s)"

text \<open>\<^verbatim>\<open>s.split('::')\<close>: the pieces between the occurrences of the separator, found
  from the left and not overlapping. The first argument is the piece being read.\<close>

fun split_sep :: "string \<Rightarrow> string \<Rightarrow> string list" where
  "split_sep acc [] = [acc]"
| "split_sep acc [c] = [acc @ [c]]"
| "split_sep acc (c # d # cs) =
     (if c = CHR '':'' \<and> d = CHR '':'' then acc # split_sep [] cs
      else split_sep (acc @ [c]) (d # cs))"

definition split :: "string \<Rightarrow> string list" where
  "split s = split_sep [] s"

text \<open>Whether the separator \<^verbatim>\<open>::\<close> occurs in a string.\<close>

fun has_sep :: "string \<Rightarrow> bool" where
  "has_sep (c # d # cs) = ((c = CHR '':'' \<and> d = CHR '':'') \<or> has_sep (d # cs))"
| "has_sep _ = False"

text \<open>A value interpolated into a template literal: \<^verbatim>\<open>undefined\<close> prints as its name.\<close>

definition interpolate :: "string option \<Rightarrow> string" where
  "interpolate v = (case v of None \<Rightarrow> ''undefined'' | Some s \<Rightarrow> s)"

text \<open>\<^verbatim>\<open>xs.join(sep)\<close>.\<close>

fun join_with :: "string \<Rightarrow> string list \<Rightarrow> string" where
  "join_with sep [] = []"
| "join_with sep [x] = x"
| "join_with sep (x # y # ys) = x @ sep @ join_with sep (y # ys)"

text \<open>
  \<^verbatim>\<open>s.trimLeft()\<close> drops the white space and the line terminators at the front.
  These are, in UTF-8: tab, line feed, vertical tab, form feed, carriage return and
  space; U+00A0; U+1680; U+2000 to U+200A; U+2028, U+2029, U+202F; U+205F; U+3000;
  and U+FEFF.
\<close>

definition white_space :: "string list" where
  "white_space =
     [[CHR 0x09], [CHR 0x0A], [CHR 0x0B], [CHR 0x0C], [CHR 0x0D], [CHR 0x20],
      [CHR 0xC2, CHR 0xA0],
      [CHR 0xE1, CHR 0x9A, CHR 0x80],
      [CHR 0xE2, CHR 0x80, CHR 0x80], [CHR 0xE2, CHR 0x80, CHR 0x81],
      [CHR 0xE2, CHR 0x80, CHR 0x82], [CHR 0xE2, CHR 0x80, CHR 0x83],
      [CHR 0xE2, CHR 0x80, CHR 0x84], [CHR 0xE2, CHR 0x80, CHR 0x85],
      [CHR 0xE2, CHR 0x80, CHR 0x86], [CHR 0xE2, CHR 0x80, CHR 0x87],
      [CHR 0xE2, CHR 0x80, CHR 0x88], [CHR 0xE2, CHR 0x80, CHR 0x89],
      [CHR 0xE2, CHR 0x80, CHR 0x8A],
      [CHR 0xE2, CHR 0x80, CHR 0xA8], [CHR 0xE2, CHR 0x80, CHR 0xA9],
      [CHR 0xE2, CHR 0x80, CHR 0xAF],
      [CHR 0xE2, CHR 0x81, CHR 0x9F],
      [CHR 0xE3, CHR 0x80, CHR 0x80],
      [CHR 0xEF, CHR 0xBB, CHR 0xBF]]"

text \<open>The number of bytes of the white-space character a string starts with, 0 when
  it starts with none.\<close>

definition leading_space :: "string \<Rightarrow> nat" where
  "leading_space s =
     (case find (\<lambda>sp. take (length sp) s = sp) white_space of
        Some sp \<Rightarrow> length sp
      | None \<Rightarrow> 0)"

function trimLeft :: "string \<Rightarrow> string" where
  "trimLeft s = (if leading_space s = 0 then s else trimLeft (drop (leading_space s) s))"
  by pat_completeness auto
termination
proof (relation "measure length")
  show "wf (measure length)"
    by simp
next
  fix s :: string
  assume "leading_space s \<noteq> 0"
  moreover have "leading_space [] = 0"
    by (simp add: leading_space_def white_space_def)
  ultimately have "s \<noteq> []" and "0 < leading_space s"
    by auto
  then show "(drop (leading_space s) s, s) \<in> measure length"
    by simp
qed

declare trimLeft.simps [simp del]

text \<open>\<^verbatim>\<open>String(n)\<close> for an integer \<open>n\<close>: its decimal digits, with a minus sign when
  negative.\<close>

definition digit_char :: "nat \<Rightarrow> char" where
  "digit_char d = ''0123456789'' ! d"

function digits :: "nat \<Rightarrow> string" where
  "digits n = (if n < 10 then [digit_char n] else digits (n div 10) @ [digit_char (n mod 10)])"
  by pat_completeness auto
termination
  by (relation "measure id") auto

definition string_of_int :: "int \<Rightarrow> string" where
  "string_of_int i = (if i < 0 then CHR ''-'' # digits (nat (- i)) else digits (nat i))"

section \<open>Paths\<close>

text \<open>
  Node's \<^verbatim>\<open>path\<close> module, POSIX flavour. \<^verbatim>\<open>segments\<close> cuts a path at every
  \<^verbatim>\<open>/\<close>; \<^verbatim>\<open>normalizeString\<close> resolves the \<^verbatim>\<open>.\<close> and \<^verbatim>\<open>..\<close> segments, the
  stack of segments kept so far being held in reverse.
\<close>

fun segments_acc :: "string \<Rightarrow> string \<Rightarrow> string list" where
  "segments_acc acc [] = [acc]"
| "segments_acc acc (c # cs) =
     (if c = CHR ''/'' then acc # segments_acc [] cs else segments_acc (acc @ [c]) cs)"

definition segments :: "string \<Rightarrow> string list" where
  "segments p = segments_acc [] p"

fun resolve_dots :: "bool \<Rightarrow> string list \<Rightarrow> string list \<Rightarrow> string list" where
  "resolve_dots allowAboveRoot res [] = rev res"
| "resolve_dots allowAboveRoot res (s # ss) =
     (if s = [] \<or> s = ''.'' then resolve_dots allowAboveRoot res ss
      else if s = ''..'' then
        (case res of
           [] \<Rightarrow> resolve_dots allowAboveRoot (if allowAboveRoot then [''..''] else []) ss
         | r # rs \<Rightarrow>
             if r = ''..'' then resolve_dots allowAboveRoot (''..'' # res) ss
             else resolve_dots allowAboveRoot rs ss)
      else resolve_dots allowAboveRoot (s # res) ss)"

definition normalizeString :: "string \<Rightarrow> bool \<Rightarrow> string" where
  "normalizeString p allowAboveRoot =
     join_with ''/'' (resolve_dots allowAboveRoot [] (segments p))"

definition normalize :: "string \<Rightarrow> string" where
  "normalize p =
     (if p = [] then ''.''
      else
        let isAbsolute = (hd p = CHR ''/'');
            trailingSeparator = (last p = CHR ''/'');
            q = normalizeString p (\<not> isAbsolute)
        in if q = [] then (if isAbsolute then ''/'' else if trailingSeparator then ''./'' else ''.'')
           else
             let q' = (if trailingSeparator then q @ ''/'' else q)
             in if isAbsolute then CHR ''/'' # q' else q')"

text \<open>\<^verbatim>\<open>path.join(...)\<close>: the non-empty arguments joined with \<^verbatim>\<open>/\<close>, normalised.\<close>

definition join :: "string list \<Rightarrow> string" where
  "join args =
     (case filter (\<lambda>a. a \<noteq> []) args of
        [] \<Rightarrow> ''.''
      | a # as \<Rightarrow> normalize (join_with ''/'' (a # as)))"

text \<open>\<^verbatim>\<open>path.basename(p)\<close>: the last segment, trailing separators ignored.\<close>

definition basename :: "string \<Rightarrow> string" where
  "basename p = rev (takeWhile (\<lambda>c. c \<noteq> CHR ''/'') (dropWhile (\<lambda>c. c = CHR ''/'') (rev p)))"

text \<open>\<^verbatim>\<open>path.dirname(p)\<close>: what precedes the separator in front of the last segment.
  The scan stops before the first character, which only decides whether the path has a
  root.\<close>

definition dirname :: "string \<Rightarrow> string" where
  "dirname p =
     (if p = [] then ''.''
      else
        let hasRoot = (hd p = CHR ''/'');
            back = dropWhile (\<lambda>c. c \<noteq> CHR ''/'') (dropWhile (\<lambda>c. c = CHR ''/'') (rev (tl p)))
        in if back = [] then (if hasRoot then ''/'' else ''.'')
           else if hasRoot \<and> length back = 1 then ''//''
           else hd p # rev (tl back))"

section \<open>JSON\<close>

text \<open>The values the manifest is built from, and \<^verbatim>\<open>JSON.stringify(v, undefined, 2)\<close>
  on them. An object is the list of its properties in insertion order.\<close>

datatype json =
    JNull
  | JString string
  | JBool bool
  | JArray "json list"
  | JObject "(string \<times> json) list"

definition hex_digit :: "nat \<Rightarrow> char" where
  "hex_digit d = ''0123456789abcdef'' ! d"

text \<open>\<^verbatim>\<open>QuoteJSONString\<close>: the quote, the backslash and the control characters are
  escaped, the short escapes first.\<close>

definition escape_char :: "char \<Rightarrow> string" where
  "escape_char c =
     (if c = CHR 0x08 then [CHR 0x5C, CHR ''b'']
      else if c = CHR 0x09 then [CHR 0x5C, CHR ''t'']
      else if c = CHR 0x0A then [CHR 0x5C, CHR ''n'']
      else if c = CHR 0x0C then [CHR 0x5C, CHR ''f'']
      else if c = CHR 0x0D then [CHR 0x5C, CHR ''r'']
      else if c = CHR 0x22 then [CHR 0x5C, CHR 0x22]
      else if c = CHR 0x5C then [CHR 0x5C, CHR 0x5C]
      else if (of_char c :: nat) < 32
        then [CHR 0x5C, CHR ''u'', CHR ''0'', CHR ''0'',
              hex_digit (of_char c div 16), hex_digit (of_char c mod 16)]
      else [c])"

definition quote :: "string \<Rightarrow> string" where
  "quote s = [CHR 0x22] @ concat (map escape_char s) @ [CHR 0x22]"

definition indentation :: "nat \<Rightarrow> string" where
  "indentation depth = replicate (2 * depth) CHR '' ''"

text \<open>The already serialised members of an object or array at nesting \<open>depth\<close>,
  between the brackets \<open>l\<close> and \<open>r\<close>.\<close>

definition bracketed :: "string \<Rightarrow> string \<Rightarrow> nat \<Rightarrow> string list \<Rightarrow> string" where
  "bracketed l r depth partial =
     (if partial = [] then l @ r
      else l @ [CHR 0x0A] @ indentation (Suc depth)
           @ join_with ([CHR '','', CHR 0x0A] @ indentation (Suc depth)) partial
           @ [CHR 0x0A] @ indentation depth @ r)"

primrec serialize :: "json \<Rightarrow> nat \<Rightarrow> string" where
  "serialize JNull depth = ''null''"
| "serialize (JString s) depth = quote s"
| "serialize (JBool b) depth = (if b then ''true'' else ''false'')"
| "serialize (JArray vs) depth =
     bracketed ''['' '']'' depth (map (\<lambda>v. serialize v (Suc depth)) vs)"
| "serialize (JObject ps) depth =
     bracketed ''{'' ''}'' depth
       (map (\<lambda>p. quote (fst p) @ '': '' @ snd p)
            (map (map_prod id (\<lambda>v. serialize v (Suc depth))) ps))"

definition stringify :: "json \<Rightarrow> string" where
  "stringify v = serialize v 0"

section \<open>The world of the scaffolder\<close>

text \<open>
  What a run does is recorded as a trace of events, in order; \<open>paths\<close> is the set of
  paths that exist. Everything the script obtains from outside is a field of \<open>env\<close>:
  the locale of the host, the directory of the script, the version field of its \<^verbatim>\<open>package.json\<close>, the
  namespaces of the CloudFormation specification, the paths \<^verbatim>\<open>require.resolve\<close>
  finds, what a directory listing returns, which file-system call throws, and how a
  child process ends. The last three may depend on the world at the time of the call.
  What a child process itself does to the file system is not recorded.
\<close>

datatype error = Error string | TypeError string | SystemError string

datatype event =
    Mkdirp string
  | WriteFile string string
  | Copy string string
  | Spawn string
  | ConsoleLog string
  | ConsoleError error

record world =
  paths :: "string set"
  trace :: "event list"

text \<open>How a child process ends: the \<^verbatim>\<open>error\<close> event, or the \<^verbatim>\<open>exit\<close> event with
  its code (\<^verbatim>\<open>null\<close> when a signal ended it).\<close>

datatype child_end = ChildError error | ChildExit "int option"

record env =
  host_locale :: language
  script_dirname :: string
  package_json_version :: "error + string"
  namespaces :: "string list"
  require_resolve :: "string \<Rightarrow> error + string"
  readdir_result :: "world \<Rightarrow> string \<Rightarrow> error + string list"
  fs_fault :: "world \<Rightarrow> event \<Rightarrow> error option"
  spawn :: "world \<Rightarrow> string \<Rightarrow> child_end"

type_synonym 'a io = "world \<Rightarrow> (error + 'a) \<times> world"

definition return :: "'a \<Rightarrow> 'a io" where
  "return x w = (Inr x, w)"

definition throw :: "error \<Rightarrow> 'a io" where
  "throw e w = (Inl e, w)"

definition lift :: "error + 'a \<Rightarrow> 'a io" where
  "lift r w = (r, w)"

text \<open>\<^verbatim>\<open>const x = await m; ...\<close>: a rejection of \<open>m\<close> ends the sequence.\<close>

definition await :: "'a io \<Rightarrow> ('a \<Rightarrow> 'b io) \<Rightarrow> 'b io" where
  "await m f w = (case m w of (Inl e, w') \<Rightarrow> (Inl e, w') | (Inr x, w') \<Rightarrow> f x w')"

text \<open>The directories \<^verbatim>\<open>mkdirp\<close> makes sure of: the path and each of its prefixes
  that ends in front of a separator.\<close>

definition ancestors :: "string \<Rightarrow> string list" where
  "ancestors p = [take i p. i \<leftarrow> [1..<length p], p ! i = CHR ''/''] @ [p]"

fun created :: "event \<Rightarrow> string set" where
  "created (Mkdirp d) = set (ancestors d)"
| "created (WriteFile p d) = {p}"
| "created (Copy src dest) = {dest}"
| "created (Spawn c) = {}"
| "created (ConsoleLog m) = {}"
| "created (ConsoleError e) = {}"

definition record_event :: "event \<Rightarrow> world \<Rightarrow> world" where
  "record_event ev w = w\<lparr>paths := paths w \<union> created ev, trace := trace w @ [ev]\<rparr>"

text \<open>A file-system call: it throws, leaving the world as it was, or takes effect.\<close>

definition fs_call :: "env \<Rightarrow> event \<Rightarrow> unit io" where
  "fs_call env ev w =
     (case fs_fault env w ev of
        Some e \<Rightarrow> (Inl e, w)
      | None \<Rightarrow> (Inr (), record_event ev w))"

definition mkdirp :: "env \<Rightarrow> string \<Rightarrow> unit io" where
  "mkdirp env dir = fs_call env (Mkdirp dir)"

definition writeFile :: "env \<Rightarrow> string \<Rightarrow> string \<Rightarrow> unit io" where
  "writeFile env file data = fs_call env (WriteFile file data)"

definition copy :: "env \<Rightarrow> string \<Rightarrow> string \<Rightarrow> unit io" where
  "copy env src dest = fs_call env (Copy src dest)"

text \<open>\<^verbatim>\<open>fs.pathExists\<close> resolves to a boolean and never rejects.\<close>

definition pathExists :: "string \<Rightarrow> bool io" where
  "pathExists p w = (Inr (p \<in> paths w), w)"

definition readdir :: "env \<Rightarrow> string \<Rightarrow> string list io" where
  "readdir env dir w = (readdir_result env w dir, w)"

definition console_log :: "string \<Rightarrow> unit io" where
  "console_log msg w = (Inr (), record_event (ConsoleLog msg) w)"

section \<open>The write helper\<close>

text \<open>The helper \<^verbatim>\<open>write\<close> of the loop body is \<open>write_contents\<close> here.\<close>

text \<open>The shapes of \<^verbatim>\<open>contents\<close>, by the tests of the helper: a string; an array
  of strings; a value whose \<^verbatim>\<open>typeof\<close> is \<^verbatim>\<open>object\<close>, which is an object with its
  properties or \<^verbatim>\<open>null\<close>; or any other value (a number, a boolean,
  \<^verbatim>\<open>undefined\<close>), given by the text it concatenates to.\<close>

datatype contents =
    CString string
  | CArray "string list"
  | CObject "(string \<times> json) list"
  | CNull
  | COther string

definition newline :: string where
  "newline = [CHR 0x0A]"

definition data_of :: "contents \<Rightarrow> error + string" where
  "data_of c =
     (case c of
        CString s \<Rightarrow> Inr (trimLeft s)
      | CArray xs \<Rightarrow> Inr (join_with newline xs)
      | CObject ps \<Rightarrow> Inr (stringify (JObject ps))
      | CNull \<Rightarrow> Inr (stringify JNull)
      | COther v \<Rightarrow> Inl (Error (''Invalid type of contents: '' @ v)))"

definition write_contents :: "env \<Rightarrow> string \<Rightarrow> string \<Rightarrow> contents \<Rightarrow> unit io" where
  "write_contents env pacakgePath relativePath c =
     (let fullPath = join [pacakgePath, relativePath];
          dir = dirname fullPath
      in await (mkdirp env dir) (\<lambda>_.
         await (lift (data_of c)) (\<lambda>data.
         writeFile env fullPath (data @ newline))))"

section \<open>Running the build orchestrator\<close>

definition exit_code_text :: "int option \<Rightarrow> string" where
  "exit_code_text code = (case code of None \<Rightarrow> ''null'' | Some c \<Rightarrow> string_of_int c)"

text \<open>\<^verbatim>\<open>exec(command)\<close>: the command is spawned in a shell; the promise is fulfilled
  when the child exits with code 0 and rejected otherwise.\<close>

definition exec :: "env \<Rightarrow> string \<Rightarrow> unit io" where
  "exec env command w =
     (let w' = record_event (Spawn command) w
      in case spawn env w command of
           ChildError e \<Rightarrow> (Inl e, w')
         | ChildExit code \<Rightarrow>
             if code = Some 0 then (Inr (), w')
             else (Inl (Error (''non-zero exit code: '' @ exit_code_text code)), w'))"

section \<open>Names derived from a namespace\<close>

text \<open>\<^verbatim>\<open>const [ moduleFamily, moduleBaseName ] = namespace.split('::')\<close>. The split
  always has a first piece; the second is \<^verbatim>\<open>undefined\<close> when the separator does not
  occur.\<close>

definition moduleFamily :: "string \<Rightarrow> string" where
  "moduleFamily namespace = hd (split namespace)"

definition moduleBaseName :: "string \<Rightarrow> string option" where
  "moduleBaseName namespace = (case split namespace of _ # b # _ \<Rightarrow> Some b | _ \<Rightarrow> None)"

text \<open>The names that are lowered take the locale of the host.\<close>

definition moduleName :: "language \<Rightarrow> string \<Rightarrow> string" where
  "moduleName loc namespace =
     toLocaleLowerCase loc
       (moduleFamily namespace @ ''-'' @ interpolate (moduleBaseName namespace))"

definition pacakgePath :: "language \<Rightarrow> string \<Rightarrow> string \<Rightarrow> string" where
  "pacakgePath loc root namespace = join [root, moduleName loc namespace]"

definition packageName :: "language \<Rightarrow> string \<Rightarrow> string" where
  "packageName loc namespace = ''@aws-cdk/'' @ moduleName loc namespace"

definition dotnetPackage :: "string \<Rightarrow> string \<Rightarrow> string" where
  "dotnetPackage family base = ''Amazon.CDK.'' @ family @ ''.'' @ base"

definition javaGroupId :: string where
  "javaGroupId = ''software.amazon.awscdk''"

definition javaPackage :: "language \<Rightarrow> string \<Rightarrow> string \<Rightarrow> string" where
  "javaPackage loc family lowcaseModuleName =
     (if family = ''AWS'' then ''services.'' @ lowcaseModuleName
      else toLocaleLowerCase loc family @ ''.'' @ lowcaseModuleName)"

definition javaArtifactId :: "language \<Rightarrow> string \<Rightarrow> string \<Rightarrow> string" where
  "javaArtifactId loc family lowcaseModuleName =
     (if family = ''AWS'' then lowcaseModuleName
      else toLocaleLowerCase loc family @ ''-'' @ lowcaseModuleName)"

section \<open>The generated files\<close>

definition package_json ::
  "language \<Rightarrow> string \<Rightarrow> string \<Rightarrow> string \<Rightarrow> string \<Rightarrow> (string \<times> json) list" where
  "package_json loc namespace version family base =
     (let lowcaseModuleName = toLocaleLowerCase loc base in
      [(''name'', JString (packageName loc namespace)),
       (''version'', JString version),
       (''description'', JString (''The CDK Construct Library for '' @ namespace)),
       (''main'', JString ''lib/index.js''),
       (''types'', JString ''lib/index.d.ts''),
       (''jsii'', JObject
          [(''outdir'', JString ''dist''),
           (''targets'', JObject
              [(''dotnet'', JObject
                  [(''namespace'', JString (dotnetPackage family base)),
                   (''packageId'', JString (dotnetPackage family base)),
                   (''signAssembly'', JBool True),
                   (''assemblyOriginatorKeyFile'', JString ''../../key.snk'')]),
               (''java'', JObject
                  [(''package'',
                      JString (javaGroupId @ ''.'' @ javaPackage loc family lowcaseModuleName)),
                   (''maven'', JObject
                      [(''groupId'', JString javaGroupId),
                       (''artifactId'', JString (javaArtifactId loc family lowcaseModuleName))])]),
               (''sphinx'', JObject [])])]),
       (''repository'', JObject
          [(''type'', JString ''git''),
           (''url'', JString ''https://github.com/awslabs/aws-cdk.git'')]),
       (''homepage'', JString ''https://github.com/awslabs/aws-cdk''),
       (''scripts'', JObject
          [(''build'', JString ''cdk-build''),
           (''integ'', JString ''cdk-integ''),
           (''lint'', JString ''cdk-lint''),
           (''package'', JString ''cdk-package''),
           (''pkglint'', JString ''pkglint -f''),
           (''test'', JString ''cdk-test''),
           (''watch'', JString ''cdk-watch''),
           (''cfn2ts'', JString ''cfn2ts'')]),
       (''cdk-build'', JObject [(''cloudformation'', JString namespace)]),
       (''keywords'', JArray
          [JString ''aws'', JString ''cdk'', JString ''constructs'',
           JString namespace, JString (moduleName loc namespace)]),
       (''author'', JObject
          [(''name'', JString ''Amazon Web Services''),
           (''url'', JString ''https://aws.amazon.com''),
           (''organization'', JBool True)]),
       (''license'', JString ''Apache-2.0''),
       (''devDependencies'', JObject
          [(''@aws-cdk/assert'', JString (''^'' @ version)),
           (''cdk-build-tools'', JString (''^'' @ version)),
           (''cfn2ts'', JString (''^'' @ version)),
           (''pkglint'', JString (''^'' @ version))]),
       (''dependencies'', JObject [(''@aws-cdk/cdk'', JString (''^'' @ version))]),
       (''peerDependencies'', JObject [(''@aws-cdk/cdk'', JString (''^'' @ version))]),
       (''engines'', JObject [(''node'', JString ''>= 8.10.0'')])])"

definition gitignore :: "string list" where
  "gitignore =
     [''*.d.ts'', ''*.generated.ts'', ''*.js'', ''*.js.map'', ''*.snk'', ''.jsii'',
      ''.LAST_BUILD'', ''.LAST_PACKAGE'', ''.nycrc'', ''.nyc_output'', ''coverage'',
      ''dist'', ''tsconfig.json'', ''tslint.json'']"

definition npmignore :: "string list" where
  "npmignore =
     [''# The basics'', ''*.ts'', ''*.tgz'', ''*.snk'', ''!*.d.ts'', ''!*.js'', [],
      ''# Coverage'', ''coverage'', ''.nyc_output'', ''.nycrc'', [],
      ''# Build gear'', ''dist'', ''.LAST_BUILD'', ''.LAST_PACKAGE'', ''.jsii'']"

definition index_ts :: "string \<Rightarrow> string \<Rightarrow> string list" where
  "index_ts namespace lowcaseModuleName =
     [''// '' @ namespace @ '' CloudFormation Resources:'',
      ''export * from './'' @ lowcaseModuleName @ ''.generated';'']"

definition test_ts :: "string list" where
  "test_ts =
     [''import { Test, testCase } from 'nodeunit';'',
      ''import {} from '../lib';'',
      [],
      ''export = testCase({'',
      ''    notTested(test: Test) {'',
      ''        test.ok(true, 'No tests are specified for this package.');'',
      ''        test.done();'',
      ''    }'',
      ''});'']"

definition readme_md :: "language \<Rightarrow> string \<Rightarrow> string \<Rightarrow> string list" where
  "readme_md loc namespace lowcaseModuleName =
     [''## '' @ namespace @ '' Construct Library'',
      [],
      ''This module is part of the [AWS Cloud Development Kit](https://github.com/awslabs/aws-cdk) project.'',
      [],
      replicate 3 (CHR 0x60) @ ''ts'',
      ''import '' @ lowcaseModuleName @ '' = require('' @ [CHR 0x27]
        @ packageName loc namespace @ [CHR 0x27] @ '');'',
      replicate 3 (CHR 0x60)]"

section \<open>The scaffolder\<close>

text \<open>The copy of the template directory, file by file.\<close>

primrec copy_files :: "env \<Rightarrow> string \<Rightarrow> string \<Rightarrow> string list \<Rightarrow> unit io" where
  "copy_files env templateDir dest [] = return ()"
| "copy_files env templateDir dest (file # files) =
     await (copy env (join [templateDir, file]) (join [dest, file]))
       (\<lambda>_. copy_files env templateDir dest files)"

text \<open>The files of a new module: the six written files and the copy of the
  template.\<close>

definition emit_files :: "env \<Rightarrow> string \<Rightarrow> string \<Rightarrow> string \<Rightarrow> string \<Rightarrow> unit io" where
  "emit_files env root version namespace base =
     (let loc = host_locale env;
          family = moduleFamily namespace;
          dest = pacakgePath loc root namespace;
          lowcaseModuleName = toLocaleLowerCase loc base
      in
      await (console_log (''generating module for '' @ packageName loc namespace @ ''...'')) (\<lambda>_.
      await (write_contents env dest ''package.json''
               (CObject (package_json loc namespace version family base))) (\<lambda>_.
      await (write_contents env dest ''.gitignore'' (CArray gitignore)) (\<lambda>_.
      await (write_contents env dest ''.npmignore'' (CArray npmignore)) (\<lambda>_.
      await (write_contents env dest ''lib/index.ts''
               (CArray (index_ts namespace lowcaseModuleName))) (\<lambda>_.
      await (write_contents env dest (''test/test.'' @ lowcaseModuleName @ ''.ts'')
               (CArray test_ts)) (\<lambda>_.
      await (write_contents env dest ''README.md''
               (CArray (readme_md loc namespace lowcaseModuleName))) (\<lambda>_.
      let templateDir = join [script_dirname env, ''template''] in
      await (readdir env templateDir) (\<lambda>files.
      copy_files env templateDir dest files)))))))))"

text \<open>The two commands given to the build orchestrator.\<close>

definition bootstrap_command :: "string \<Rightarrow> string \<Rightarrow> string" where
  "bootstrap_command lerna pkg = lerna @ '' bootstrap --scope '' @ pkg"

definition build_command :: "string \<Rightarrow> string \<Rightarrow> string" where
  "build_command lerna pkg =
     lerna @ '' run --include-filtered-dependencies --progress build --scope '' @ pkg"

text \<open>What \<^verbatim>\<open>moduleBaseName.toLocaleLowerCase()\<close> throws when the base name is
  \<^verbatim>\<open>undefined\<close>.\<close>

definition undefined_base_error :: error where
  "undefined_base_error = TypeError ''Cannot read property 'toLocaleLowerCase' of undefined''"

text \<open>The body of the loop for a namespace that has no module yet: the names, the
  files, and the two runs of the build orchestrator. Lowering the base name throws when
  there is none.\<close>

definition generate :: "env \<Rightarrow> string \<Rightarrow> string \<Rightarrow> string \<Rightarrow> unit io" where
  "generate env root version namespace =
     (case moduleBaseName namespace of
        None \<Rightarrow> throw undefined_base_error
      | Some base \<Rightarrow>
          await (emit_files env root version namespace base) (\<lambda>_.
          await (lift (require_resolve env ''lerna/package.json'')) (\<lambda>resolved.
          let lerna = join [dirname resolved, ''cli.js''] in
          await (exec env (bootstrap_command lerna (packageName (host_locale env) namespace)))
            (\<lambda>_.
          exec env (build_command lerna (packageName (host_locale env) namespace))))))"

text \<open>The loop over the namespaces: a namespace whose directory exists is passed over.\<close>

primrec for_namespaces :: "env \<Rightarrow> string \<Rightarrow> string \<Rightarrow> string list \<Rightarrow> unit io" where
  "for_namespaces env root version [] = return ()"
| "for_namespaces env root version (namespace # rest) =
     await (pathExists (pacakgePath (host_locale env) root namespace)) (\<lambda>exists.
       if exists then for_namespaces env root version rest
       else await (generate env root version namespace)
              (\<lambda>_. for_namespaces env root version rest))"

definition root_of :: "env \<Rightarrow> string" where
  "root_of env = join [script_dirname env, ''..'', ''..'']"

text \<open>The error of the sanity check on the root directory.\<close>

definition wrong_root_error :: "string \<Rightarrow> error" where
  "wrong_root_error root =
     Error (''Something went wrong. We expected '' @ root @ '' to be the ''
            @ [CHR 0x22] @ ''packages/@aws-cdk'' @ [CHR 0x22]
            @ '' directory. Did you move me?'')"

definition main :: "env \<Rightarrow> unit io" where
  "main env =
     (let root = root_of env in
      if basename root \<noteq> ''@aws-cdk'' then throw (wrong_root_error root)
      else
        await (lift (package_json_version env)) (\<lambda>version.
        for_namespaces env root version (namespaces env)))"

text \<open>\<^verbatim>\<open>main().catch(e => { console.error(e); process.exit(1); })\<close>: the exit status
  of the process and the world it leaves. A run that is not rejected ends with status 0.\<close>

definition run :: "env \<Rightarrow> world \<Rightarrow> nat \<times> world" where
  "run env w =
     (case main env w of
        (Inl e, w') \<Rightarrow> (1, record_event (ConsoleError e) w')
      | (Inr _, w') \<Rightarrow> (0, w'))"

section \<open>The scalable attribute\<close>

text \<open>The types the facade only passes on.\<close>

typedecl ServiceNamespace
typedecl IRole
typedecl ScalingSchedule
typedecl BasicStepScalingPolicyProps
typedecl BasicTargetTrackingScalingPolicyProps

text \<open>Modelled from the spec: the class \<^verbatim>\<open>ScalableTarget\<close> of
  \<^verbatim>\<open>./scalable-target\<close>, the external abstraction that represents a resource's
  capacity range plus its registered scaling policies and schedules. It keeps the
  properties it was constructed with and the registrations it received, in order.\<close>

record ScalableTargetProps =
  serviceNamespace :: ServiceNamespace
  scalableDimension :: string
  resourceId :: string
  role :: IRole
  minCapacity :: int
  maxCapacity :: int

datatype registration =
    ScaleOnSchedule string ScalingSchedule
  | ScaleOnMetric string BasicStepScalingPolicyProps
  | ScaleToTrackMetric string BasicTargetTrackingScalingPolicyProps

record ScalableTarget =
  target_id :: string
  target_props :: ScalableTargetProps
  registered :: "registration list"

definition new_ScalableTarget :: "string \<Rightarrow> ScalableTargetProps \<Rightarrow> ScalableTarget" where
  "new_ScalableTarget i p = \<lparr>target_id = i, target_props = p, registered = []\<rparr>"

definition register :: "registration \<Rightarrow> ScalableTarget \<Rightarrow> ScalableTarget" where
  "register r t = t\<lparr>registered := registered t @ [r]\<rparr>"

text \<open>The properties of the attribute; the minimum capacity is optional.\<close>

record BaseScalableAttributeProps =
  serviceNamespace :: ServiceNamespace
  resourceId :: string
  dimension :: string
  role :: IRole
  minCapacity :: "int option"
  maxCapacity :: int

record BaseScalableAttribute =
  construct_id :: string
  props :: BaseScalableAttributeProps
  target :: ScalableTarget

definition new_BaseScalableAttribute ::
  "string \<Rightarrow> BaseScalableAttributeProps \<Rightarrow> BaseScalableAttribute" where
  "new_BaseScalableAttribute i p =
     \<lparr>construct_id = i,
      props = p,
      target = new_ScalableTarget ''Target''
        \<lparr>ScalableTargetProps.serviceNamespace = serviceNamespace p,
         scalableDimension = dimension p,
         ScalableTargetProps.resourceId = resourceId p,
         ScalableTargetProps.role = role p,
         ScalableTargetProps.minCapacity = (case minCapacity p of Some m \<Rightarrow> m | None \<Rightarrow> 1),
         ScalableTargetProps.maxCapacity = maxCapacity p\<rparr>\<rparr>"

definition scaleOnSchedule ::
  "string \<Rightarrow> ScalingSchedule \<Rightarrow> BaseScalableAttribute \<Rightarrow> BaseScalableAttribute" where
  "scaleOnSchedule i p this = this\<lparr>target := register (ScaleOnSchedule i p) (target this)\<rparr>"

definition scaleOnMetric ::
  "string \<Rightarrow> BasicStepScalingPolicyProps \<Rightarrow> BaseScalableAttribute \<Rightarrow> BaseScalableAttribute" where
  "scaleOnMetric i p this = this\<lparr>target := register (ScaleOnMetric i p) (target this)\<rparr>"

definition scaleToTrackMetric ::
  "string \<Rightarrow> BasicTargetTrackingScalingPolicyProps \<Rightarrow> BaseScalableAttribute
     \<Rightarrow> BaseScalableAttribute" where
  "scaleToTrackMetric i p this =
     this\<lparr>target := register (ScaleToTrackMetric i p) (target this)\<rparr>"

text \<open>A call of one of the three methods, named by the registration it asks for.\<close>

fun invoke :: "registration \<Rightarrow> BaseScalableAttribute \<Rightarrow> BaseScalableAttribute" where
  "invoke (ScaleOnSchedule i p) this = scaleOnSchedule i p this"
| "invoke (ScaleOnMetric i p) this = scaleOnMetric i p this"
| "invoke (ScaleToTrackMetric i p) this = scaleToTrackMetric i p this"

section \<open>Notions used in the statements\<close>

text \<open>The value of a property of an object.\<close>

definition property :: "string \<Rightarrow> json \<Rightarrow> json option" where
  "property k v = (case v of JObject ps \<Rightarrow> map_of ps k | _ \<Rightarrow> None)"

text \<open>The value found by following property names down from an object.\<close>

primrec property_at :: "string list \<Rightarrow> json \<Rightarrow> json option" where
  "property_at [] v = Some v"
| "property_at (k # ks) v =
     (case property k v of None \<Rightarrow> None | Some u \<Rightarrow> property_at ks u)"

text \<open>A text that ends with a line feed which no other line feed precedes.\<close>

definition one_trailing_newline :: "string \<Rightarrow> bool" where
  "one_trailing_newline d =
     (case rev d of
        [] \<Rightarrow> False
      | c # before \<Rightarrow>
          c = CHR 0x0A \<and> (case before of [] \<Rightarrow> True | b # _ \<Rightarrow> b \<noteq> CHR 0x0A))"

definition well_ended :: "event \<Rightarrow> bool" where
  "well_ended ev = (case ev of WriteFile p d \<Rightarrow> one_trailing_newline d | _ \<Rightarrow> True)"

definition files_well_ended :: "world \<Rightarrow> bool" where
  "files_well_ended w = list_all well_ended (trace w)"

text \<open>The world after a list of events.\<close>

definition record_events :: "event list \<Rightarrow> world \<Rightarrow> world" where
  "record_events evs w = fold record_event evs w"

text \<open>The file-system calls of a call of the write helper, of the six files of a
  module and of the copy of the template, in order; and the events of a generation up
  to the build.\<close>

definition write_events :: "string \<Rightarrow> string \<Rightarrow> string \<Rightarrow> event list" where
  "write_events dest rel body =
     [Mkdirp (dirname (join [dest, rel])), WriteFile (join [dest, rel]) (body @ newline)]"

definition copy_events :: "string \<Rightarrow> string \<Rightarrow> string list \<Rightarrow> event list" where
  "copy_events templateDir dest files =
     map (\<lambda>file. Copy (join [templateDir, file]) (join [dest, file])) files"

definition file_events :: "language \<Rightarrow> string \<Rightarrow> string \<Rightarrow> string \<Rightarrow> string \<Rightarrow> event list" where
  "file_events loc root version namespace base =
     (let dest = pacakgePath loc root namespace;
          low = toLocaleLowerCase loc base
      in write_events dest ''package.json''
           (stringify (JObject (package_json loc namespace version (moduleFamily namespace) base)))
         @ write_events dest ''.gitignore'' (join_with newline gitignore)
         @ write_events dest ''.npmignore'' (join_with newline npmignore)
         @ write_events dest ''lib/index.ts'' (join_with newline (index_ts namespace low))
         @ write_events dest (''test/test.'' @ low @ ''.ts'') (join_with newline test_ts)
         @ write_events dest ''README.md'' (join_with newline (readme_md loc namespace low)))"

definition generating :: "language \<Rightarrow> string \<Rightarrow> event" where
  "generating loc namespace =
     ConsoleLog (''generating module for '' @ packageName loc namespace @ ''...'')"

definition emitted_events ::
  "language \<Rightarrow> string \<Rightarrow> string \<Rightarrow> string \<Rightarrow> string \<Rightarrow> string \<Rightarrow> string list \<Rightarrow> event list" where
  "emitted_events loc script_dir root version namespace base files =
     generating loc namespace # file_events loc root version namespace base
     @ copy_events (join [script_dir, ''template'']) (pacakgePath loc root namespace) files"

text \<open>A list of file-system calls none of which fails when they are made one after
  the other from a world; and the calls made one after the other.\<close>

primrec clean :: "env \<Rightarrow> world \<Rightarrow> event list \<Rightarrow> bool" where
  "clean env w [] = True"
| "clean env w (ev # evs) = (fs_fault env w ev = None \<and> clean env (record_event ev w) evs)"

primrec perform :: "env \<Rightarrow> event list \<Rightarrow> unit io" where
  "perform env [] = return ()"
| "perform env (ev # evs) = await (fs_call env ev) (\<lambda>_. perform env evs)"

text \<open>The errors printed so far.\<close>

definition printed :: "world \<Rightarrow> error list" where
  "printed w = concat (map (\<lambda>ev. case ev of ConsoleError e \<Rightarrow> [e] | _ \<Rightarrow> []) (trace w))"

text \<open>A property of the world that a computation keeps, whatever its outcome.\<close>

definition keeps :: "(world \<Rightarrow> bool) \<Rightarrow> 'a io \<Rightarrow> bool" where
  "keeps P m = (\<forall>w r w'. P w \<longrightarrow> m w = (r, w') \<longrightarrow> P w')"

definition has_paths :: "string set \<Rightarrow> world \<Rightarrow> bool" where
  "has_paths S w = (S \<subseteq> paths w)"

text \<open>An environment in which no file-system call fails and every child process ends
  the same way, and a world in which the module of \<^verbatim>\<open>AWS::S3\<close> exists.\<close>

definition example_env :: "string list \<Rightarrow> child_end \<Rightarrow> env" where
  "example_env nss outcome =
     \<lparr>host_locale = NotTurkic,
      script_dirname = ''/repo/packages/@aws-cdk/cfnspec/build-tools'',
      package_json_version = Inr ''1.2.3'',
      namespaces = nss,
      require_resolve = (\<lambda>_. Inr ''/repo/node_modules/lerna/package.json''),
      readdir_result = (\<lambda>_ _. Inr [''LICENSE'', ''NOTICE'']),
      fs_fault = (\<lambda>_ _. None),
      spawn = (\<lambda>_ _. outcome)\<rparr>"

text \<open>The same environment with the script in another place; on a host with a Turkish
  locale; and with a disk on which nothing can be copied.\<close>

definition misplaced_env :: env where
  "misplaced_env =
     (example_env [''AWS::S3''] (ChildExit (Some 0)))
       \<lparr>script_dirname := ''/home/me/cfnspec/build-tools''\<rparr>"

definition turkish_env :: env where
  "turkish_env = (example_env [] (ChildExit (Some 0)))\<lparr>host_locale := Turkic\<rparr>"

definition full_disk_env :: env where
  "full_disk_env =
     (example_env [''AWS::S3'', ''Family::Widget'', ''AWS::EC2''] (ChildExit (Some 0)))
       \<lparr>fs_fault := (\<lambda>_ ev. case ev of Copy src dest \<Rightarrow> Some (SystemError ''ENOSPC'')
                                   | _ \<Rightarrow> None)\<rparr>"

definition example_root :: string where
  "example_root = ''/repo/packages/@aws-cdk''"

definition example_world :: world where
  "example_world = \<lparr>paths = {''/repo/packages/@aws-cdk/aws-s3''}, trace = []\<rparr>"

section \<open>Lemmas\<close>

subsection \<open>Sequencing\<close>

lemma await_Inr: "m w = (Inr x, w') \<Longrightarrow> await m f w = f x w'"
  by (simp add: await_def)

lemma await_Inl: "m w = (Inl e, w') \<Longrightarrow> await m f w = (Inl e, w')"
  by (simp add: await_def)

lemma await_cases:
  assumes "await m f w = (r, w')"
  obtains (rejected) e where "m w = (Inl e, w')" and "r = Inl e"
  | (fulfilled) x w1 where "m w = (Inr x, w1)" and "f x w1 = (r, w')"
  using assms by (auto simp: await_def split: prod.splits sum.splits)

lemma await_InrE:
  assumes "await m f w = (Inr y, w')"
  obtains x w1 where "m w = (Inr x, w1)" and "f x w1 = (Inr y, w')"
  using assms by (auto simp: await_def split: prod.splits sum.splits)

lemma await_assoc: "await (await m f) g = await m (\<lambda>x. await (f x) g)"
  by (rule ext) (simp add: await_def split: prod.splits sum.splits)

lemma return_await: "await (return x) f = f x"
  by (rule ext) (simp add: await_def return_def)

lemma await_return: "await m return = m"
  by (rule ext) (simp add: await_def return_def split: prod.splits sum.splits)

lemma lift_Inr: "lift (Inr x) = return x"
  by (rule ext) (simp add: lift_def return_def)

lemma keepsI: "(\<And>w r w'. P w \<Longrightarrow> m w = (r, w') \<Longrightarrow> P w') \<Longrightarrow> keeps P m"
  by (simp add: keeps_def)

lemma keepsD: "keeps P m \<Longrightarrow> P w \<Longrightarrow> m w = (r, w') \<Longrightarrow> P w'"
  by (auto simp: keeps_def)

lemma keeps_return: "keeps P (return x)"
  by (simp add: keeps_def return_def)

lemma keeps_throw: "keeps P (throw e)"
  by (simp add: keeps_def throw_def)

lemma keeps_lift: "keeps P (lift r)"
  by (simp add: keeps_def lift_def)

lemma keeps_pathExists: "keeps P (pathExists p)"
  by (simp add: keeps_def pathExists_def)

lemma keeps_readdir: "keeps P (readdir env dir)"
  by (simp add: keeps_def readdir_def)

lemma keeps_await:
  assumes "keeps P m" and "\<And>x. keeps P (f x)"
  shows "keeps P (await m f)"
proof (rule keepsI)
  fix w r w'
  assume P: "P w" and run: "await m f w = (r, w')"
  from run show "P w'"
  proof (cases rule: await_cases)
    case (rejected e)
    with assms(1) P show ?thesis by (blast dest: keepsD)
  next
    case (fulfilled x w1)
    with assms(1) P have "P w1" by (blast dest: keepsD)
    with assms(2) fulfilled show ?thesis by (blast dest: keepsD)
  qed
qed

lemma keeps_fs_call:
  assumes "\<And>w. P w \<Longrightarrow> P (record_event ev w)"
  shows "keeps P (fs_call env ev)"
  using assms by (auto simp: keeps_def fs_call_def split: option.splits)

lemma keeps_console_log:
  assumes "\<And>w. P w \<Longrightarrow> P (record_event (ConsoleLog msg) w)"
  shows "keeps P (console_log msg)"
  using assms by (auto simp: keeps_def console_log_def)

lemma keeps_exec:
  assumes "\<And>w. P w \<Longrightarrow> P (record_event (Spawn command) w)"
  shows "keeps P (exec env command)"
  using assms by (auto simp: keeps_def exec_def Let_def split: child_end.splits if_splits)

text \<open>A property that every step of the scaffolder keeps is kept by the whole of it.\<close>

lemma keeps_write_contents:
  assumes "\<And>w. P w \<Longrightarrow> P (record_event (Mkdirp (dirname (join [dest, rel]))) w)"
    and "\<And>body w. data_of c = Inr body \<Longrightarrow> P w
           \<Longrightarrow> P (record_event (WriteFile (join [dest, rel]) (body @ newline)) w)"
  shows "keeps P (write_contents env dest rel c)"
  unfolding write_contents_def Let_def mkdirp_def writeFile_def
  by (cases "data_of c")
     (auto intro!: keeps_await keeps_fs_call keeps_lift assms
        simp: lift_def keeps_def await_def fs_call_def split: option.splits)

lemma keeps_copy_files:
  assumes "\<And>src d w. P w \<Longrightarrow> P (record_event (Copy src d) w)"
  shows "keeps P (copy_files env templateDir dest files)"
  by (induction files)
     (auto simp: copy_def intro!: keeps_return keeps_await keeps_fs_call assms)

subsection \<open>Nothing is removed from the file system\<close>

lemma has_paths_record_event: "has_paths S w \<Longrightarrow> has_paths S (record_event ev w)"
  by (auto simp: has_paths_def record_event_def)

lemma keeps_paths_emit_files: "keeps (has_paths S) (emit_files env root version namespace base)"
  unfolding emit_files_def Let_def
  by (intro keeps_await keeps_console_log keeps_write_contents keeps_readdir
      keeps_copy_files has_paths_record_event)

lemma keeps_paths_generate: "keeps (has_paths S) (generate env root version namespace)"
  unfolding generate_def Let_def
  by (cases "moduleBaseName namespace")
     (auto intro!: keeps_throw keeps_await keeps_paths_emit_files keeps_lift keeps_exec
        has_paths_record_event)

lemma keeps_paths_for_namespaces:
  "keeps (has_paths S) (for_namespaces env root version nss)"
proof (induction nss)
  case Nil
  show ?case by (simp add: keeps_return)
next
  case (Cons namespace rest)
  show ?case
    unfolding for_namespaces.simps
    by (intro keeps_await keeps_pathExists) (auto intro!: keeps_await keeps_paths_generate Cons)
qed

subsection \<open>No error is printed before the end\<close>

lemma printed_record_event:
  "printed (record_event ev w) = printed w @ (case ev of ConsoleError e \<Rightarrow> [e] | _ \<Rightarrow> [])"
  by (simp add: printed_def record_event_def)

lemma keeps_printed_emit_files:
  "keeps (\<lambda>w. printed w = es) (emit_files env root version namespace base)"
  unfolding emit_files_def Let_def
  by (intro keeps_await keeps_console_log keeps_write_contents keeps_readdir keeps_copy_files)
     (simp_all add: printed_record_event)

lemma keeps_printed_generate:
  "keeps (\<lambda>w. printed w = es) (generate env root version namespace)"
  unfolding generate_def Let_def
  by (cases "moduleBaseName namespace")
     (auto intro!: keeps_throw keeps_await keeps_printed_emit_files keeps_lift keeps_exec
        simp: printed_record_event)

lemma keeps_printed_for_namespaces:
  "keeps (\<lambda>w. printed w = es) (for_namespaces env root version nss)"
proof (induction nss)
  case Nil
  show ?case by (simp add: keeps_return)
next
  case (Cons namespace rest)
  show ?case
    unfolding for_namespaces.simps
    by (intro keeps_await keeps_pathExists) (auto intro!: keeps_await keeps_printed_generate Cons)
qed

lemma keeps_printed_main: "keeps (\<lambda>w. printed w = es) (main env)"
  unfolding main_def Let_def
  by (auto intro!: keeps_throw keeps_await keeps_lift keeps_printed_for_namespaces)

subsection \<open>Evaluating the examples\<close>

lemmas path_defs =
  join_def normalize_def normalizeString_def segments_def basename_def dirname_def

lemmas name_defs =
  pacakgePath_def moduleName_def moduleFamily_def moduleBaseName_def split_def
  interpolate_def toLocaleLowerCase_def lower_char_def packageName_def

lemma example_root_of: "root_of (example_env nss outcome) = example_root"
  by (simp add: example_root_def root_of_def example_env_def path_defs)

lemma example_s3_path:
  "pacakgePath NotTurkic example_root ''AWS::S3'' = ''/repo/packages/@aws-cdk/aws-s3''"
  by (simp add: example_root_def name_defs path_defs)

subsection \<open>Splitting a namespace\<close>

lemma split_sep_nonempty: "split_sep acc s \<noteq> []"
  by (induction acc s rule: split_sep.induct) auto

lemma split_sep_no_sep: "\<not> has_sep s \<Longrightarrow> split_sep acc s = [acc @ s]"
  by (induction acc s rule: split_sep.induct) auto

lemma has_sep_iff: "has_sep s \<longleftrightarrow> (\<exists>a b. s = a @ ''::'' @ b)"
proof
  show "has_sep s \<Longrightarrow> \<exists>a b. s = a @ ''::'' @ b"
  proof (induction s rule: has_sep.induct)
    case (1 c d cs)
    show ?case
    proof (cases "c = CHR '':'' \<and> d = CHR '':''")
      case True
      then have "c # d # cs = [] @ ''::'' @ cs" by simp
      then show ?thesis by blast
    next
      case False
      with 1 obtain a b where "d # cs = a @ ''::'' @ b" by auto
      then have "c # d # cs = (c # a) @ ''::'' @ b" by simp
      then show ?thesis by blast
    qed
  qed simp_all
next
  have "has_sep (a @ ''::'' @ b)" for a b
  proof (induction a)
    case Nil
    show ?case by simp
  next
    case (Cons x xs)
    then show ?case by (cases "xs @ ''::'' @ b") auto
  qed
  then show "\<exists>a b. s = a @ ''::'' @ b \<Longrightarrow> has_sep s" by blast
qed

lemma split_sep_first:
  "\<not> has_sep (f @ '':'') \<Longrightarrow> split_sep acc (f @ ''::'' @ b) = (acc @ f) # split_sep [] b"
proof (induction f arbitrary: acc)
  case Nil
  show ?case by simp
next
  case (Cons c f)
  show ?case
  proof (cases f)
    case Nil
    with Cons.prems show ?thesis by simp
  next
    case (Cons d f')
    with Cons.prems have "\<not> (c = CHR '':'' \<and> d = CHR '':'')" and "\<not> has_sep (f @ '':'')"
      by auto
    with Cons.IH [of "acc @ [c]"] Cons show ?thesis by simp
  qed
qed

lemma split_two:
  assumes "\<not> has_sep (family @ '':'')" and "\<not> has_sep baseName"
  shows "split (family @ ''::'' @ baseName) = [family, baseName]"
  using assms by (simp add: split_def split_sep_first split_sep_no_sep del: append.simps)

lemma split_one: "\<not> has_sep namespace \<Longrightarrow> split namespace = [namespace]"
  by (simp add: split_def split_sep_no_sep)

subsection \<open>Lower case\<close>

lemma toLocaleLowerCase_append:
  "toLocaleLowerCase loc (a @ b) = toLocaleLowerCase loc a @ toLocaleLowerCase loc b"
  by (simp add: toLocaleLowerCase_def)

lemma toLocaleLowerCase_hyphen: "toLocaleLowerCase loc ''-'' = ''-''"
  by (simp add: toLocaleLowerCase_def lower_char_def)

lemma toLocaleLowerCase_undefined: "toLocaleLowerCase loc ''undefined'' = ''undefined''"
  by (simp add: toLocaleLowerCase_def lower_char_def)

lemma moduleName_with_base:
  "moduleBaseName n = Some b \<Longrightarrow>
   moduleName loc n = toLocaleLowerCase loc (moduleFamily n) @ ''-'' @ toLocaleLowerCase loc b"
  by (simp add: moduleName_def interpolate_def toLocaleLowerCase_append
      toLocaleLowerCase_hyphen del: append.simps)

lemma moduleName_without_base:
  "moduleBaseName n = None \<Longrightarrow>
   moduleName loc n = toLocaleLowerCase loc (moduleFamily n) @ ''-undefined''"
  using toLocaleLowerCase_hyphen [of loc] toLocaleLowerCase_undefined [of loc]
  by (simp add: moduleName_def interpolate_def toLocaleLowerCase_append del: append.simps)

lemma lower_char_no_capital:
  "c' \<in> set (lower_char loc c) \<Longrightarrow> c' \<notin> set ''ABCDEFGHIJKLMNOPQRSTUVWXYZ''"
  by (auto simp: lower_char_def split: if_splits option.splits)

lemma toLocaleLowerCase_no_capital:
  "c \<in> set (toLocaleLowerCase loc s) \<Longrightarrow> c \<notin> set ''ABCDEFGHIJKLMNOPQRSTUVWXYZ''"
  unfolding toLocaleLowerCase_def using lower_char_no_capital by fastforce
subsection \<open>Lists of file-system calls\<close>

lemma record_events_Nil: "record_events [] w = w"
  by (simp add: record_events_def)

lemma record_events_Cons: "record_events (ev # evs) w = record_events evs (record_event ev w)"
  by (simp add: record_events_def)

lemma record_events_append:
  "record_events (xs @ ys) w = record_events ys (record_events xs w)"
  by (simp add: record_events_def)

lemma trace_record_events: "trace (record_events evs w) = trace w @ evs"
  by (induction evs arbitrary: w) (simp_all add: record_events_Nil record_events_Cons record_event_def)

lemma paths_record_events: "paths (record_events evs w) = paths w \<union> \<Union> (created ` set evs)"
  by (induction evs arbitrary: w)
     (auto simp: record_events_Nil record_events_Cons record_event_def)

lemma clean_append:
  "clean env w (xs @ ys) \<longleftrightarrow> clean env w xs \<and> clean env (record_events xs w) ys"
  by (induction xs arbitrary: w) (simp_all add: record_events_Nil record_events_Cons)

lemma clean_no_fault: "(\<And>v ev. fs_fault env v ev = None) \<Longrightarrow> clean env w evs"
  by (induction evs arbitrary: w) simp_all

lemma perform_append: "perform env (xs @ ys) = await (perform env xs) (\<lambda>_. perform env ys)"
  by (induction xs) (simp_all add: return_await await_assoc)

lemma perform_clean: "clean env w evs \<Longrightarrow> perform env evs w = (Inr (), record_events evs w)"
  by (induction evs arbitrary: w)
     (simp_all add: return_def await_def fs_call_def record_events_Nil record_events_Cons)

lemma perform_fault:
  "clean env w pre \<Longrightarrow> fs_fault env (record_events pre w) ev = Some e \<Longrightarrow>
   perform env (pre @ ev # post) w = (Inl e, record_events pre w)"
  by (induction pre arbitrary: w)
     (simp_all add: await_def fs_call_def record_events_Nil record_events_Cons)

lemma perform_Inr:
  "perform env evs w = (Inr u, w') \<Longrightarrow> clean env w evs \<and> w' = record_events evs w"
proof (induction evs arbitrary: w)
  case Nil
  then show ?case by (simp add: return_def record_events_Nil)
next
  case (Cons ev evs)
  from Cons.prems obtain w1 where first: "fs_call env ev w = (Inr (), w1)"
    and others: "perform env evs w1 = (Inr u, w')"
    by (auto elim!: await_InrE)
  from first have "fs_fault env w ev = None" and "w1 = record_event ev w"
    by (auto simp: fs_call_def split: option.splits)
  with Cons.IH [OF others] show ?case
    by (simp add: record_events_Cons)
qed

lemma write_contents_perform:
  "data_of c = Inr body \<Longrightarrow>
   write_contents env dest rel c = perform env (write_events dest rel body)"
  by (simp add: write_contents_def Let_def mkdirp_def writeFile_def write_events_def lift_Inr
      return_await await_return)

lemma write_lines_perform:
  "write_contents env dest rel (CArray xs)
     = perform env (write_events dest rel (join_with newline xs))"
  by (rule write_contents_perform) (simp add: data_of_def)

lemma write_object_perform:
  "write_contents env dest rel (CObject ps)
     = perform env (write_events dest rel (stringify (JObject ps)))"
  by (rule write_contents_perform) (simp add: data_of_def)

lemma copy_files_perform:
  "copy_files env templateDir dest files = perform env (copy_events templateDir dest files)"
  by (induction files) (simp_all add: copy_events_def copy_def)

text \<open>The files of a module, as the log line, the twelve calls for the six files, the
  listing of the template and the copies.\<close>

lemma emit_files_perform:
  "emit_files env root version namespace base =
     await (console_log (''generating module for '' @ packageName (host_locale env) namespace
                         @ ''...'')) (\<lambda>_.
     await (perform env (file_events (host_locale env) root version namespace base)) (\<lambda>_.
     await (readdir env (join [script_dirname env, ''template''])) (\<lambda>files.
     perform env (copy_events (join [script_dirname env, ''template''])
                    (pacakgePath (host_locale env) root namespace) files))))"
proof -
  have copies: "copy_files env templateDir dest
      = (\<lambda>files. perform env (copy_events templateDir dest files))" for templateDir dest
    by (rule ext) (rule copy_files_perform)
  show ?thesis
    unfolding emit_files_def file_events_def Let_def
    by (simp only: write_lines_perform write_object_perform copies perform_append await_assoc)
qed

lemma console_log_result: "console_log msg w = (Inr (), record_event (ConsoleLog msg) w)"
  by (simp add: console_log_def)

lemma emit_files_Inr:
  assumes "emit_files env root version namespace base w = (Inr u, w')"
  shows "\<exists>files.
           readdir_result env
               (record_events (generating (host_locale env) namespace
                               # file_events (host_locale env) root version namespace base) w)
               (join [script_dirname env, ''template''])
             = Inr files
           \<and> clean env (record_event (generating (host_locale env) namespace) w)
               (file_events (host_locale env) root version namespace base
                @ copy_events (join [script_dirname env, ''template''])
                    (pacakgePath (host_locale env) root namespace) files)
           \<and> w' = record_events
               (emitted_events (host_locale env) (script_dirname env) root version namespace
                  base files) w"
proof -
  let ?g = "generating (host_locale env) namespace"
  let ?fs = "file_events (host_locale env) root version namespace base"
  let ?dir = "join [script_dirname env, ''template'']"
  from assms obtain w2 files w3 where
    written: "perform env ?fs (record_event ?g w) = (Inr (), w2)"
    and listed: "readdir env ?dir w2 = (Inr files, w3)"
    and copied: "perform env (copy_events ?dir (pacakgePath (host_locale env) root namespace) files)
                   w3 = (Inr u, w')"
    unfolding emit_files_perform
    by (auto elim!: await_InrE simp: console_log_result generating_def)
  from perform_Inr [OF written] have w2: "w2 = record_events (?g # ?fs) w"
    and clean1: "clean env (record_event ?g w) ?fs"
    by (simp_all add: record_events_Cons)
  from listed have w3: "w3 = w2" and files: "readdir_result env w2 ?dir = Inr files"
    by (auto simp: readdir_def)
  from perform_Inr [OF copied] w3 w2 have
    clean2: "clean env (record_events ?fs (record_event ?g w))
               (copy_events ?dir (pacakgePath (host_locale env) root namespace) files)"
    and w': "w' = record_events
        (copy_events ?dir (pacakgePath (host_locale env) root namespace) files)
        (record_events (?g # ?fs) w)"
    by (simp_all add: record_events_Cons)
  from w' have "w' = record_events
      (emitted_events (host_locale env) (script_dirname env) root version namespace base files) w"
    by (simp add: emitted_events_def record_events_append record_events_Cons)
  with files w2 clean1 clean2 show ?thesis
    by (auto simp: clean_append)
qed

text \<open>The first call that fails ends the files of the module, with its error, in the
  world the calls before it have made.\<close>

lemma emit_files_fault_in_files:
  assumes "file_events (host_locale env) root version namespace base = pre @ ev # post"
    and "clean env (record_event (generating (host_locale env) namespace) w) pre"
    and "fs_fault env (record_events (generating (host_locale env) namespace # pre) w) ev = Some e"
  shows "emit_files env root version namespace base w
           = (Inl e, record_events (generating (host_locale env) namespace # pre) w)"
  using perform_fault [OF assms(2), of ev e post] assms(1,3)
  by (simp add: emit_files_perform await_def console_log_result generating_def
      record_events_Cons)

lemma emit_files_readdir_error:
  assumes "clean env (record_event (generating (host_locale env) namespace) w)
             (file_events (host_locale env) root version namespace base)"
    and "readdir_result env
           (record_events (generating (host_locale env) namespace
                           # file_events (host_locale env) root version namespace base) w)
           (join [script_dirname env, ''template'']) = Inl e"
  shows "emit_files env root version namespace base w
           = (Inl e, record_events (generating (host_locale env) namespace
                                    # file_events (host_locale env) root version namespace base) w)"
  using perform_clean [OF assms(1)] assms(2)
  by (simp add: emit_files_perform await_def console_log_result generating_def
      record_events_Cons readdir_def)

lemma emit_files_fault_in_copy:
  assumes "clean env (record_event (generating (host_locale env) namespace) w)
             (file_events (host_locale env) root version namespace base)"
    and "readdir_result env
           (record_events (generating (host_locale env) namespace
                           # file_events (host_locale env) root version namespace base) w)
           (join [script_dirname env, ''template'']) = Inr files"
    and "copy_events (join [script_dirname env, ''template''])
           (pacakgePath (host_locale env) root namespace) files = pre @ ev # post"
    and "clean env
           (record_events (generating (host_locale env) namespace
                           # file_events (host_locale env) root version namespace base) w) pre"
    and "fs_fault env
           (record_events (generating (host_locale env) namespace
                           # file_events (host_locale env) root version namespace base @ pre) w)
           ev = Some e"
  shows "emit_files env root version namespace base w
           = (Inl e, record_events
                (generating (host_locale env) namespace
                 # file_events (host_locale env) root version namespace base @ pre) w)"
proof -
  let ?w2 = "record_events (generating (host_locale env) namespace
      # file_events (host_locale env) root version namespace base) w"
  have "perform env (pre @ ev # post) ?w2 = (Inl e, record_events pre ?w2)"
    using assms(4,5) by (intro perform_fault) (simp_all add: record_events_append record_events_Cons)
  with perform_clean [OF assms(1)] assms(2,3) show ?thesis
    by (simp add: emit_files_perform await_def console_log_result generating_def
        record_events_Cons record_events_append readdir_def)
qed

lemma emit_files_no_fault:
  assumes faults: "\<And>w ev. fs_fault env w ev = None"
    and listing: "\<And>w d. readdir_result env w d = Inr files"
  shows "emit_files env root version namespace base w
           = (Inr (), record_events
                (emitted_events (host_locale env) (script_dirname env) root version namespace
                   base files) w)"
  by (simp add: emit_files_perform await_def console_log_result generating_def readdir_def
      listing perform_clean [OF clean_no_fault [of env, OF faults]] emitted_events_def
      record_events_Cons record_events_append)

subsection \<open>The loop\<close>

lemma for_namespaces_append:
  "for_namespaces env root version (xs @ ys) w =
     (case for_namespaces env root version xs w of
        (Inl e, w') \<Rightarrow> (Inl e, w')
      | (Inr u, w') \<Rightarrow> for_namespaces env root version ys w')"
  by (induction xs arbitrary: w)
     (auto simp: return_def await_def pathExists_def split: prod.splits sum.splits)

lemma for_namespaces_new:
  assumes "pacakgePath (host_locale env) root namespace \<notin> paths w"
  shows "for_namespaces env root version (namespace # rest) w =
     (case generate env root version namespace w of
        (Inl e, w') \<Rightarrow> (Inl e, w')
      | (Inr u, w') \<Rightarrow> for_namespaces env root version rest w')"
  using assms by (simp add: await_def pathExists_def)

lemma main_checked:
  assumes "basename (root_of env) = ''@aws-cdk''" and "package_json_version env = Inr version"
  shows "main env w = for_namespaces env (root_of env) version (namespaces env) w"
  using assms by (simp add: main_def Let_def await_def lift_def)

text \<open>A rejection of the body of the loop, for a namespace at any place of the list,
  is the rejection of \<open>main\<close>.\<close>

lemma main_rejected_in_loop:
  assumes "basename (root_of env) = ''@aws-cdk''"
    and "package_json_version env = Inr version"
    and "namespaces env = before @ namespace # rest"
    and "for_namespaces env (root_of env) version before w = (Inr (), w0)"
    and "pacakgePath (host_locale env) (root_of env) namespace \<notin> paths w0"
    and "generate env (root_of env) version namespace w0 = (Inl e, w1)"
  shows "main env w = (Inl e, w1)"
  using assms(3,4,6)
  by (simp add: main_checked [OF assms(1,2)] for_namespaces_append
      for_namespaces_new [OF assms(5)] del: for_namespaces.simps)

lemma exec_outcome:
  "exec env command w =
     (case spawn env w command of
        ChildError e \<Rightarrow> Inl e
      | ChildExit code \<Rightarrow>
          if code = Some 0 then Inr ()
          else Inl (Error (''non-zero exit code: '' @ exit_code_text code)),
      record_events [Spawn command] w)"
  by (simp add: exec_def Let_def record_events_Cons record_events_Nil split: child_end.splits)

lemma generate_after_files:
  assumes "moduleBaseName namespace = Some base"
    and "emit_files env root version namespace base w = (Inr (), w1)"
    and "require_resolve env ''lerna/package.json'' = Inr resolved"
  shows "generate env root version namespace w =
     await (exec env (bootstrap_command (join [dirname resolved, ''cli.js''])
                        (packageName (host_locale env) namespace)))
       (\<lambda>_. exec env (build_command (join [dirname resolved, ''cli.js''])
                          (packageName (host_locale env) namespace)))
       w1"
  using assms by (simp add: generate_def Let_def await_def lift_def)

lemma generate_files_rejected:
  assumes "moduleBaseName namespace = Some base"
    and "emit_files env root version namespace base w = (Inl e, w1)"
  shows "generate env root version namespace w = (Inl e, w1)"
  using assms by (simp add: generate_def Let_def await_def)

lemma generate_Inr:
  assumes "generate env root version namespace w = (Inr u, w')"
  shows "\<exists>base files resolved.
           moduleBaseName namespace = Some base
           \<and> require_resolve env ''lerna/package.json'' = Inr resolved
           \<and> w' = record_events
                (emitted_events (host_locale env) (script_dirname env) root version namespace
                   base files
                 @ [Spawn (bootstrap_command (join [dirname resolved, ''cli.js''])
                             (packageName (host_locale env) namespace)),
                    Spawn (build_command (join [dirname resolved, ''cli.js''])
                             (packageName (host_locale env) namespace))]) w"
proof (cases "moduleBaseName namespace")
  case None
  with assms show ?thesis by (simp add: generate_def throw_def)
next
  case (Some base)
  with assms obtain w1 resolved w2 where
    files: "emit_files env root version namespace base w = (Inr (), w1)"
    and lerna: "require_resolve env ''lerna/package.json'' = Inr resolved"
    and first: "exec env (bootstrap_command (join [dirname resolved, ''cli.js''])
                  (packageName (host_locale env) namespace)) w1 = (Inr (), w2)"
    and second: "exec env (build_command (join [dirname resolved, ''cli.js''])
                   (packageName (host_locale env) namespace)) w2 = (Inr u, w')"
    unfolding generate_def Let_def
    by (auto elim!: await_InrE simp: lift_def)
  from emit_files_Inr [OF files] obtain files where
    w1: "w1 = record_events
           (emitted_events (host_locale env) (script_dirname env) root version namespace
              base files) w"
    by blast
  from first have w2: "w2 = record_events
      [Spawn (bootstrap_command (join [dirname resolved, ''cli.js''])
                (packageName (host_locale env) namespace))] w1"
    by (simp add: exec_outcome)
  from second have w': "w' = record_events
      [Spawn (build_command (join [dirname resolved, ''cli.js''])
                (packageName (host_locale env) namespace))] w2"
    by (simp add: exec_outcome)
  have "w' = record_events
      (emitted_events (host_locale env) (script_dirname env) root version namespace base files
       @ [Spawn (bootstrap_command (join [dirname resolved, ''cli.js''])
                   (packageName (host_locale env) namespace)),
          Spawn (build_command (join [dirname resolved, ''cli.js''])
                   (packageName (host_locale env) namespace))]) w"
    by (simp add: w' w2 w1 record_events_append record_events_Cons record_events_Nil)
  with Some lerna show ?thesis by blast
qed

lemma generate_no_fault:
  assumes faults: "\<And>w ev. fs_fault env w ev = None"
    and listing: "\<And>w d. readdir_result env w d = Inr files"
    and lerna: "require_resolve env ''lerna/package.json'' = Inr resolved"
    and children: "\<And>w c. spawn env w c = ChildExit (Some 0)"
    and base: "moduleBaseName namespace = Some base"
  shows "generate env root version namespace w =
     (Inr (), record_events
        (emitted_events (host_locale env) (script_dirname env) root version namespace base files
         @ [Spawn (bootstrap_command (join [dirname resolved, ''cli.js''])
                     (packageName (host_locale env) namespace)),
            Spawn (build_command (join [dirname resolved, ''cli.js''])
                     (packageName (host_locale env) namespace))]) w)"
  by (simp add: generate_after_files [OF base emit_files_no_fault [OF faults listing] lerna]
      await_def exec_outcome children record_events_append record_events_Cons record_events_Nil)

text \<open>The ninth event of a generation is the write of the entry point.\<close>

lemma entry_point_event:
  "emitted_events loc script_dir root version namespace base files ! 8
     = WriteFile (join [pacakgePath loc root namespace, ''lib/index.ts''])
         (''// '' @ namespace @ '' CloudFormation Resources:'' @ newline
          @ ''export * from './'' @ toLocaleLowerCase loc base @ ''.generated';'' @ newline)"
  by (simp add: emitted_events_def file_events_def Let_def write_events_def index_ts_def)

lemma emitted_events_length:
  "13 \<le> length (emitted_events loc script_dir root version namespace base files)"
  by (simp add: emitted_events_def file_events_def Let_def write_events_def)
subsection \<open>The last character of what is written\<close>

lemma one_trailing_newline_snoc:
  "one_trailing_newline (body @ newline) \<longleftrightarrow> (body = [] \<or> last body \<noteq> CHR 0x0A)"
  by (cases body rule: rev_cases) (simp_all add: one_trailing_newline_def newline_def)

lemma join_with_last:
  "xs \<noteq> [] \<Longrightarrow> last xs \<noteq> [] \<Longrightarrow>
   join_with sep xs \<noteq> [] \<and> last (join_with sep xs) = last (last xs)"
  by (induction sep xs rule: join_with.induct) auto

lemma bracketed_last: "r \<noteq> [] \<Longrightarrow> last (bracketed l r depth partial) = last r"
  by (simp add: bracketed_def)

lemma stringify_object_last: "last (stringify (JObject ps)) = CHR ''}''"
  by (simp add: stringify_def bracketed_last)

lemma well_ended_array:
  assumes "xs \<noteq> []" and "last xs \<noteq> []" and "last (last xs) \<noteq> CHR 0x0A"
  shows "one_trailing_newline (join_with newline xs @ newline)"
  using join_with_last [OF assms(1,2), of newline] assms(3)
  by (simp add: one_trailing_newline_snoc)

lemma well_ended_object:
  assumes "data_of (CObject ps) = Inr body"
  shows "one_trailing_newline (body @ newline)"
  using assms by (auto simp: data_of_def one_trailing_newline_snoc stringify_object_last)

lemma well_ended_lines:
  assumes "data_of (CArray xs) = Inr body"
    and "xs \<noteq> []" and "last xs \<noteq> []" and "last (last xs) \<noteq> CHR 0x0A"
  shows "one_trailing_newline (body @ newline)"
proof -
  from assms(1) have "body = join_with newline xs"
    by (simp add: data_of_def)
  with well_ended_array [OF assms(2-4)] show ?thesis
    by simp
qed

lemma files_well_ended_record:
  "files_well_ended (record_event ev w) \<longleftrightarrow> files_well_ended w \<and> well_ended ev"
  by (simp add: files_well_ended_def record_event_def)

lemma keeps_well_ended_write:
  assumes "\<And>body. data_of c = Inr body \<Longrightarrow> one_trailing_newline (body @ newline)"
  shows "keeps files_well_ended (write_contents env dest rel c)"
  by (rule keeps_write_contents) (simp_all add: files_well_ended_record well_ended_def assms)

lemma keeps_well_ended_emit_files:
  "keeps files_well_ended (emit_files env root version namespace base)"
  unfolding emit_files_def Let_def
proof (intro keeps_await keeps_console_log keeps_well_ended_write keeps_readdir
    keeps_copy_files)
  fix body
  assume "data_of (CObject (package_json (host_locale env) namespace version
      (moduleFamily namespace) base)) = Inr body"
  then show "one_trailing_newline (body @ newline)"
    by (rule well_ended_object)
next
  fix body
  assume "data_of (CArray gitignore) = Inr body"
  then show "one_trailing_newline (body @ newline)"
    by (rule well_ended_lines) (simp_all add: gitignore_def)
next
  fix body
  assume "data_of (CArray npmignore) = Inr body"
  then show "one_trailing_newline (body @ newline)"
    by (rule well_ended_lines) (simp_all add: npmignore_def)
next
  fix body
  assume "data_of (CArray (index_ts namespace (toLocaleLowerCase (host_locale env) base)))
      = Inr body"
  then show "one_trailing_newline (body @ newline)"
    by (rule well_ended_lines) (simp_all add: index_ts_def)
next
  fix body
  assume "data_of (CArray test_ts) = Inr body"
  then show "one_trailing_newline (body @ newline)"
    by (rule well_ended_lines) (simp_all add: test_ts_def)
next
  fix body
  assume "data_of (CArray (readme_md (host_locale env) namespace
      (toLocaleLowerCase (host_locale env) base))) = Inr body"
  then show "one_trailing_newline (body @ newline)"
    by (rule well_ended_lines) (simp_all add: readme_md_def)
qed (simp_all add: files_well_ended_record well_ended_def)

lemma keeps_well_ended_generate:
  "keeps files_well_ended (generate env root version namespace)"
  unfolding generate_def Let_def
  by (cases "moduleBaseName namespace")
     (auto intro!: keeps_throw keeps_await keeps_well_ended_emit_files keeps_lift keeps_exec
        simp: files_well_ended_record well_ended_def)

lemma keeps_well_ended_for_namespaces:
  "keeps files_well_ended (for_namespaces env root version nss)"
proof (induction nss)
  case Nil
  show ?case by (simp add: keeps_return)
next
  case (Cons namespace rest)
  show ?case
    unfolding for_namespaces.simps
    by (intro keeps_await keeps_pathExists)
       (auto intro!: keeps_await keeps_well_ended_generate Cons)
qed

lemma keeps_well_ended_main: "keeps files_well_ended (main env)"
  unfolding main_def Let_def
  by (auto intro!: keeps_throw keeps_await keeps_lift keeps_well_ended_for_namespaces)

lemma files_well_ended_run:
  assumes "files_well_ended w"
  shows "files_well_ended (snd (run env w))"
proof -
  obtain r w' where m: "main env w = (r, w')" by (cases "main env w")
  from assms m have "files_well_ended w'"
    by (rule keepsD [OF keeps_well_ended_main])
  with m show ?thesis
    by (cases r) (simp_all add: run_def files_well_ended_record well_ended_def)
qed

subsection \<open>Trimming\<close>

lemma leading_space_white:
  assumes "leading_space s \<noteq> 0"
  shows "take (leading_space s) s \<in> set white_space"
proof -
  from assms obtain sp where found: "find (\<lambda>sp. take (length sp) s = sp) white_space = Some sp"
    by (auto simp: leading_space_def split: option.splits)
  then have "sp \<in> set white_space" and "take (length sp) s = sp"
    by (auto simp: find_Some_iff)
  with found show ?thesis
    by (simp add: leading_space_def)
qed

lemma trimLeft_done: "leading_space (trimLeft s) = 0"
  by (induction s rule: trimLeft.induct) (subst trimLeft.simps, simp)

lemma trimLeft_dropped: "\<exists>sps. set sps \<subseteq> set white_space \<and> s = concat sps @ trimLeft s"
proof (induction s rule: trimLeft.induct)
  case (1 s)
  show ?case
  proof (cases "leading_space s = 0")
    case True
    then have "set [] \<subseteq> set white_space \<and> s = concat [] @ trimLeft s"
      by (subst trimLeft.simps) simp
    then show ?thesis by blast
  next
    case False
    with 1 obtain sps where rest: "set sps \<subseteq> set white_space"
      and eq: "drop (leading_space s) s = concat sps @ trimLeft (drop (leading_space s) s)"
      by blast
    from False have same: "trimLeft s = trimLeft (drop (leading_space s) s)"
      by (subst trimLeft.simps) simp
    have "s = take (leading_space s) s @ drop (leading_space s) s"
      by simp
    with eq same have "s = concat (take (leading_space s) s # sps) @ trimLeft s"
      by (metis append.assoc concat.simps(2))
    moreover from rest leading_space_white [OF False]
    have "set (take (leading_space s) s # sps) \<subseteq> set white_space"
      by simp
    ultimately show ?thesis by blast
  qed
qed

subsection \<open>The example environments\<close>

lemma example_env_simps:
  "script_dirname (example_env nss outcome) = ''/repo/packages/@aws-cdk/cfnspec/build-tools''"
  "package_json_version (example_env nss outcome) = Inr ''1.2.3''"
  "namespaces (example_env nss outcome) = nss"
  "require_resolve (example_env nss outcome) m = Inr ''/repo/node_modules/lerna/package.json''"
  "readdir_result (example_env nss outcome) w d = Inr [''LICENSE'', ''NOTICE'']"
  "fs_fault (example_env nss outcome) w ev = None"
  "spawn (example_env nss outcome) w c = outcome"
  "host_locale (example_env nss outcome) = NotTurkic"
  by (simp_all add: example_env_def)

lemma turkish_env_simps:
  "script_dirname turkish_env = ''/repo/packages/@aws-cdk/cfnspec/build-tools''"
  "require_resolve turkish_env m = Inr ''/repo/node_modules/lerna/package.json''"
  "readdir_result turkish_env w d = Inr [''LICENSE'', ''NOTICE'']"
  "fs_fault turkish_env w ev = None"
  "spawn turkish_env w c = ChildExit (Some 0)"
  "host_locale turkish_env = Turkic"
  by (simp_all add: turkish_env_def example_env_def)

lemma full_disk_env_simps:
  "script_dirname full_disk_env = ''/repo/packages/@aws-cdk/cfnspec/build-tools''"
  "package_json_version full_disk_env = Inr ''1.2.3''"
  "namespaces full_disk_env = [''AWS::S3'', ''Family::Widget'', ''AWS::EC2'']"
  "readdir_result full_disk_env w d = Inr [''LICENSE'', ''NOTICE'']"
  "fs_fault full_disk_env w (Mkdirp d) = None"
  "fs_fault full_disk_env w (WriteFile p b) = None"
  "fs_fault full_disk_env w (Copy src dest) = Some (SystemError ''ENOSPC'')"
  "host_locale full_disk_env = NotTurkic"
  "root_of full_disk_env = example_root"
  by (simp_all add: full_disk_env_def example_env_def root_of_def example_root_def path_defs)

lemma example_root_checked: "basename (root_of (example_env nss outcome)) = ''@aws-cdk''"
  by (simp add: example_root_of example_root_def basename_def)

lemma example_root_name: "basename example_root = ''@aws-cdk''"
  by (simp add: example_root_def basename_def)

lemma widget_names:
  "moduleFamily ''Family::Widget'' = ''Family''"
  "moduleBaseName ''Family::Widget'' = Some ''Widget''"
  "packageName loc ''Family::Widget'' = ''@aws-cdk/family-widget''"
  "pacakgePath loc example_root ''Family::Widget'' = ''/repo/packages/@aws-cdk/family-widget''"
  by (cases loc; simp add: example_root_def name_defs path_defs)+

lemma iam_names:
  "moduleBaseName ''AWS::IAM'' = Some ''IAM''"
  "moduleName NotTurkic ''AWS::IAM'' = ''aws-iam''"
  "moduleName Turkic ''AWS::IAM'' = ''aws-'' @ [CHR 0xC4, CHR 0xB1] @ ''am''"
  "toLocaleLowerCase NotTurkic ''IAM'' = ''iam''"
  "toLocaleLowerCase Turkic ''IAM'' = [CHR 0xC4, CHR 0xB1] @ ''am''"
  by (simp_all add: name_defs)

lemma example_lerna:
  "join [dirname ''/repo/node_modules/lerna/package.json'', ''cli.js'']
     = ''/repo/node_modules/lerna/cli.js''"
  by (simp add: path_defs)

lemma example_generation:
  "main (example_env [''Family::Widget''] (ChildExit (Some 0))) example_world
     = (Inr (), record_events
          (emitted_events NotTurkic ''/repo/packages/@aws-cdk/cfnspec/build-tools'' example_root
             ''1.2.3'' ''Family::Widget'' ''Widget'' [''LICENSE'', ''NOTICE'']
           @ [Spawn (bootstrap_command ''/repo/node_modules/lerna/cli.js'' ''@aws-cdk/family-widget''),
              Spawn (build_command ''/repo/node_modules/lerna/cli.js'' ''@aws-cdk/family-widget'')])
          example_world)"
proof -
  let ?env = "example_env [''Family::Widget''] (ChildExit (Some 0))"
  let ?after = "record_events
      (emitted_events NotTurkic ''/repo/packages/@aws-cdk/cfnspec/build-tools'' example_root
         ''1.2.3'' ''Family::Widget'' ''Widget'' [''LICENSE'', ''NOTICE'']
       @ [Spawn (bootstrap_command ''/repo/node_modules/lerna/cli.js'' ''@aws-cdk/family-widget''),
          Spawn (build_command ''/repo/node_modules/lerna/cli.js'' ''@aws-cdk/family-widget'')])
      example_world"
  have new: "pacakgePath (host_locale ?env) (root_of ?env) ''Family::Widget'' \<notin> paths example_world"
    by (simp add: example_root_of example_env_simps widget_names example_world_def)
  have gen: "generate ?env (root_of ?env) ''1.2.3'' ''Family::Widget'' example_world
      = (Inr (), ?after)"
    using generate_no_fault [of ?env "[''LICENSE'', ''NOTICE'']"
        "''/repo/node_modules/lerna/package.json''" "''Family::Widget''" "''Widget''"
        "root_of ?env" "''1.2.3''" example_world]
    by (simp add: example_env_simps widget_names example_lerna example_root_of)
  have "main ?env example_world
      = for_namespaces ?env (root_of ?env) ''1.2.3'' [''Family::Widget''] example_world"
    using main_checked [OF example_root_checked example_env_simps(2), of "[''Family::Widget'']"
        "ChildExit (Some 0)" example_world]
    by (simp only: example_env_simps)
  also have "\<dots> = (Inr (), ?after)"
    by (simp only: for_namespaces_new [OF new] gen prod.case sum.case for_namespaces.simps(1)
        return_def)
  finally show ?thesis .
qed

text \<open>Joining a list that is not empty and ending the result with the separator is
  ending every element with the separator.\<close>

lemma join_with_terminated:
  "xs \<noteq> [] \<Longrightarrow> join_with sep xs @ sep = concat (map (\<lambda>x. x @ sep) xs)"
  by (induction sep xs rule: join_with.induct) simp_all

text \<open>A call of the write helper that returns has found a body to write and has made
  both of its file-system calls.\<close>

lemma write_contents_Inr:
  assumes "write_contents env dest rel c w = (Inr u, w')"
  shows "\<exists>body. data_of c = Inr body \<and> w' = record_events (write_events dest rel body) w"
proof (cases "data_of c")
  case (Inl e)
  with assms show ?thesis
    by (auto simp: write_contents_def Let_def await_def lift_def mkdirp_def fs_call_def
        split: option.splits)
next
  case (Inr body)
  with assms have "perform env (write_events dest rel body) w = (Inr u, w')"
    by (simp add: write_contents_perform)
  with Inr show ?thesis
    by (blast dest: perform_Inr)
qed

lemma write_contents_clean:
  assumes "data_of c = Inr body" and "clean env w (write_events dest rel body)"
  shows "write_contents env dest rel c w = (Inr (), record_events (write_events dest rel body) w)"
  using assms by (simp add: write_contents_perform perform_clean)

lemma trimLeft_kept: "leading_space s = 0 \<Longrightarrow> trimLeft s = s"
  by (subst trimLeft.simps) simp

lemma trimLeft_step: "leading_space s = n \<Longrightarrow> n \<noteq> 0 \<Longrightarrow> trimLeft s = trimLeft (drop n s)"
  by (subst trimLeft.simps) simp

section \<open>The claims\<close>

text \<open>
  C1. A namespace whose module directory exists contributes nothing to the run: the loop
  from that namespace on is the loop over the namespaces after it, started in the very
  same world, so that no file is written and no process is spawned for it. When the
  directories of all namespaces exist, the loop ends successfully in the world it
  started in.
\<close>

theorem existing_module_skipped:
  "(pacakgePath (host_locale env) root namespace \<in> paths w \<longrightarrow>
      for_namespaces env root version (namespace # rest) w
        = for_namespaces env root version rest w)
   \<and> ((\<forall>n \<in> set nss. pacakgePath (host_locale env) root n \<in> paths w) \<longrightarrow>
        for_namespaces env root version nss w = (Inr (), w))"
proof
  show "pacakgePath (host_locale env) root namespace \<in> paths w \<longrightarrow>
      for_namespaces env root version (namespace # rest) w
        = for_namespaces env root version rest w"
    by (simp add: await_def pathExists_def)
  show "(\<forall>n \<in> set nss. pacakgePath (host_locale env) root n \<in> paths w) \<longrightarrow>
        for_namespaces env root version nss w = (Inr (), w)"
    by (induction nss) (simp_all add: return_def await_def pathExists_def)
qed

theorem existing_module_skipped_witness:
  "pacakgePath NotTurkic example_root ''AWS::S3'' \<in> paths example_world
   \<and> for_namespaces (example_env [] (ChildExit (Some 0))) example_root ''1.2.3''
        [''AWS::S3'', ''AWS::S3''] example_world = (Inr (), example_world)"
proof -
  let ?env = "example_env [] (ChildExit (Some 0))"
  have here: "pacakgePath NotTurkic example_root ''AWS::S3'' \<in> paths example_world"
    by (simp add: example_s3_path example_world_def)
  then have first: "pacakgePath (host_locale ?env) example_root ''AWS::S3'' \<in> paths example_world"
    by (simp add: example_env_simps)
  then have all: "\<forall>n \<in> set [''AWS::S3'', ''AWS::S3''].
      pacakgePath (host_locale ?env) example_root n \<in> paths example_world"
    by simp
  from first all have "for_namespaces ?env example_root ''1.2.3'' [''AWS::S3'', ''AWS::S3'']
      example_world = (Inr (), example_world)"
    using existing_module_skipped [of ?env example_root "''AWS::S3''" example_world "''1.2.3''"
        "[''AWS::S3'']" "[''AWS::S3'', ''AWS::S3'']"]
    by blast
  with here show ?thesis
    by blast
qed


text \<open>
  C2. The target that the attribute constructs is named \<^verbatim>\<open>Target\<close>, has received no
  registration, and has the properties of the attribute, the minimum capacity being the
  one given or 1 when none is given. Each of the three methods adds exactly one
  registration to the target, of the kind of the method and with the identifier and the
  properties it was called with, and changes nothing else of the attribute or its target.
  After any sequence of calls on a new attribute, the target has received exactly these
  calls, in order.
\<close>

theorem facade_forwards:
  "target_id (target (new_BaseScalableAttribute i p)) = ''Target''
   \<and> registered (target (new_BaseScalableAttribute i p)) = []
   \<and> ScalableTargetProps.minCapacity
        (target_props (target (new_BaseScalableAttribute i (p\<lparr>minCapacity := Some m\<rparr>)))) = m
   \<and> ScalableTargetProps.minCapacity
        (target_props (target (new_BaseScalableAttribute i (p\<lparr>minCapacity := None\<rparr>)))) = 1
   \<and> ScalableTargetProps.maxCapacity (target_props (target (new_BaseScalableAttribute i p)))
       = maxCapacity p
   \<and> ScalableTargetProps.serviceNamespace (target_props (target (new_BaseScalableAttribute i p)))
       = serviceNamespace p
   \<and> scalableDimension (target_props (target (new_BaseScalableAttribute i p))) = dimension p
   \<and> ScalableTargetProps.resourceId (target_props (target (new_BaseScalableAttribute i p)))
       = resourceId p
   \<and> ScalableTargetProps.role (target_props (target (new_BaseScalableAttribute i p))) = role p
   \<and> scaleOnSchedule j s this
       = this\<lparr>target := (target this)\<lparr>registered := registered (target this) @ [ScaleOnSchedule j s]\<rparr>\<rparr>
   \<and> scaleOnMetric j t this
       = this\<lparr>target := (target this)\<lparr>registered := registered (target this) @ [ScaleOnMetric j t]\<rparr>\<rparr>
   \<and> scaleToTrackMetric j k this
       = this\<lparr>target := (target this)\<lparr>registered := registered (target this) @ [ScaleToTrackMetric j k]\<rparr>\<rparr>
   \<and> registered (target (fold invoke calls (new_BaseScalableAttribute i p))) = calls
   \<and> target_props (target (fold invoke calls (new_BaseScalableAttribute i p)))
       = target_props (target (new_BaseScalableAttribute i p))"
proof -
  have step: "registered (target (invoke c a)) = registered (target a) @ [c]
      \<and> target_props (target (invoke c a)) = target_props (target a)" for c a
    by (cases c) (simp_all add: scaleOnSchedule_def scaleOnMetric_def scaleToTrackMetric_def
        register_def)
  have many: "registered (target (fold invoke cs a)) = registered (target a) @ cs
      \<and> target_props (target (fold invoke cs a)) = target_props (target a)" for cs a
    by (induction cs arbitrary: a) (simp_all add: step)
  have fresh: "registered (target (new_BaseScalableAttribute i p)) = []"
    by (simp add: new_BaseScalableAttribute_def new_ScalableTarget_def)
  show ?thesis
    using many [of calls "new_BaseScalableAttribute i p"] fresh
    by (simp add: new_BaseScalableAttribute_def new_ScalableTarget_def scaleOnSchedule_def
        scaleOnMetric_def scaleToTrackMetric_def register_def)
qed


text \<open>
  C3. Take a run that passes the check of the root, reads the version, works through
  the namespaces \<open>before\<close> and has written the files of the next namespace. If the
  first command then exits with a code other than 0, or the first exits with 0 and the
  second with a code other than 0, the process ends with status 1; the world it
  leaves is the world at that point, with the commands spawned so far and the error,
  whose message ends in the exit code, printed last. The namespaces in \<open>rest\<close> play no
  part in it, and every path that existed before the failure still exists. If both
  commands exit with 0 the run goes on with the namespaces in \<open>rest\<close>.
\<close>

theorem failed_build_aborts:
  assumes root: "basename (root_of env) = ''@aws-cdk''"
    and version: "package_json_version env = Inr version"
    and nss: "namespaces env = before @ namespace # rest"
    and prior: "for_namespaces env (root_of env) version before w = (Inr (), w0)"
    and new: "pacakgePath (host_locale env) (root_of env) namespace \<notin> paths w0"
    and base: "moduleBaseName namespace = Some base"
    and files: "emit_files env (root_of env) version namespace base w0 = (Inr (), w1)"
    and lerna: "require_resolve env ''lerna/package.json'' = Inr resolved"
    and c1: "c1 = bootstrap_command (join [dirname resolved, ''cli.js'']) (packageName (host_locale env) namespace)"
    and c2: "c2 = build_command (join [dirname resolved, ''cli.js'']) (packageName (host_locale env) namespace)"
  shows "(spawn env w1 c1 = ChildExit code \<and> code \<noteq> Some 0 \<longrightarrow>
            run env w = (1, record_events
              [Spawn c1, ConsoleError (Error (''non-zero exit code: '' @ exit_code_text code))] w1))
       \<and> (spawn env w1 c1 = ChildExit (Some 0)
            \<and> spawn env (record_events [Spawn c1] w1) c2 = ChildExit code \<and> code \<noteq> Some 0 \<longrightarrow>
            run env w = (1, record_events
              [Spawn c1, Spawn c2,
               ConsoleError (Error (''non-zero exit code: '' @ exit_code_text code))] w1))
       \<and> (spawn env w1 c1 = ChildExit (Some 0)
            \<and> spawn env (record_events [Spawn c1] w1) c2 = ChildExit (Some 0) \<longrightarrow>
            main env w = for_namespaces env (root_of env) version rest
                           (record_events [Spawn c1, Spawn c2] w1))
       \<and> paths w \<subseteq> paths w0 \<and> paths w0 \<subseteq> paths w1
       \<and> paths (record_events [Spawn c1, Spawn c2, ConsoleError e] w1) = paths w1"
proof -
  have loop: "main env w =
      (case generate env (root_of env) version namespace w0 of
         (Inl e, w') \<Rightarrow> (Inl e, w')
       | (Inr u, w') \<Rightarrow> for_namespaces env (root_of env) version rest w')"
    by (simp add: main_checked [OF root version] nss for_namespaces_append prior
        for_namespaces_new [OF new] del: for_namespaces.simps)
  have gen: "generate env (root_of env) version namespace w0 =
      await (exec env c1) (\<lambda>_. exec env c2) w1"
    unfolding c1 c2 by (rule generate_after_files [OF base files lerna])
  have first: "spawn env w1 c1 = ChildExit code \<and> code \<noteq> Some 0 \<longrightarrow>
      run env w = (1, record_events
        [Spawn c1, ConsoleError (Error (''non-zero exit code: '' @ exit_code_text code))] w1)"
    by (simp add: run_def loop gen await_def exec_outcome record_events_Cons record_events_Nil)
  have second: "spawn env w1 c1 = ChildExit (Some 0)
      \<and> spawn env (record_events [Spawn c1] w1) c2 = ChildExit code \<and> code \<noteq> Some 0 \<longrightarrow>
      run env w = (1, record_events
        [Spawn c1, Spawn c2,
         ConsoleError (Error (''non-zero exit code: '' @ exit_code_text code))] w1)"
    by (simp add: run_def loop gen await_def exec_outcome record_events_Cons record_events_Nil)
  have both: "spawn env w1 c1 = ChildExit (Some 0)
      \<and> spawn env (record_events [Spawn c1] w1) c2 = ChildExit (Some 0) \<longrightarrow>
      main env w = for_namespaces env (root_of env) version rest
                     (record_events [Spawn c1, Spawn c2] w1)"
    by (simp add: loop gen await_def exec_outcome record_events_Cons record_events_Nil)
  have "has_paths (paths w) w"
    by (simp add: has_paths_def)
  then have "has_paths (paths w) w0"
    using prior by (rule keepsD [OF keeps_paths_for_namespaces])
  then have kept0: "paths w \<subseteq> paths w0"
    by (simp add: has_paths_def)
  have "has_paths (paths w0) w0"
    by (simp add: has_paths_def)
  then have "has_paths (paths w0) w1"
    using files by (rule keepsD [OF keeps_paths_emit_files])
  then have kept1: "paths w0 \<subseteq> paths w1"
    by (simp add: has_paths_def)
  have same: "paths (record_events [Spawn c1, Spawn c2, ConsoleError e] w1) = paths w1"
    by (simp add: paths_record_events)
  from first second both kept0 kept1 same show ?thesis
    by blast
qed

theorem failed_build_aborts_witness:
  "run (example_env [''AWS::S3'', ''Family::Widget'', ''AWS::EC2''] (ChildExit (Some 2)))
       example_world
     = (1, record_events
             [Spawn ''/repo/node_modules/lerna/cli.js bootstrap --scope @aws-cdk/family-widget'',
              ConsoleError (Error ''non-zero exit code: 2'')]
             (record_events
                (emitted_events NotTurkic ''/repo/packages/@aws-cdk/cfnspec/build-tools'' example_root
                   ''1.2.3'' ''Family::Widget'' ''Widget'' [''LICENSE'', ''NOTICE''])
                example_world))"
proof -
  let ?env = "example_env [''AWS::S3'', ''Family::Widget'', ''AWS::EC2''] (ChildExit (Some 2))"
  let ?w1 = "record_events
      (emitted_events NotTurkic ''/repo/packages/@aws-cdk/cfnspec/build-tools'' example_root
         ''1.2.3'' ''Family::Widget'' ''Widget'' [''LICENSE'', ''NOTICE'']) example_world"
  let ?c1 = "''/repo/node_modules/lerna/cli.js bootstrap --scope @aws-cdk/family-widget''"
  let ?c2 = "build_command (join [dirname ''/repo/node_modules/lerna/package.json'', ''cli.js''])
      (packageName (host_locale ?env) ''Family::Widget'')"
  have nss: "namespaces ?env = [''AWS::S3''] @ ''Family::Widget'' # [''AWS::EC2'']"
    by (simp add: example_env_simps)
  have prior: "for_namespaces ?env (root_of ?env) ''1.2.3'' [''AWS::S3''] example_world
      = (Inr (), example_world)"
    by (simp add: example_root_of example_env_simps example_s3_path example_world_def
        await_def pathExists_def return_def)
  have new: "pacakgePath (host_locale ?env) (root_of ?env) ''Family::Widget'' \<notin> paths example_world"
    by (simp add: example_root_of example_env_simps widget_names example_world_def)
  have files: "emit_files ?env (root_of ?env) ''1.2.3'' ''Family::Widget'' ''Widget'' example_world
      = (Inr (), ?w1)"
    using emit_files_no_fault [of ?env "[''LICENSE'', ''NOTICE'']" "root_of ?env" "''1.2.3''"
        "''Family::Widget''" "''Widget''" example_world]
    by (simp add: example_env_simps example_root_of)
  have c1: "?c1 = bootstrap_command
      (join [dirname ''/repo/node_modules/lerna/package.json'', ''cli.js''])
      (packageName (host_locale ?env) ''Family::Widget'')"
    by (simp add: bootstrap_command_def example_lerna example_env_simps widget_names)
  have ended: "spawn ?env ?w1 ?c1 = ChildExit (Some 2) \<and> Some (2::int) \<noteq> Some 0"
    by (simp add: example_env_simps)
  have shown: "exit_code_text (Some 2) = ''2''"
    by (simp add: exit_code_text_def string_of_int_def digit_char_def)
  from ended show ?thesis
    using failed_build_aborts [of ?env "''1.2.3''" "[''AWS::S3'']" "''Family::Widget''"
        "[''AWS::EC2'']" example_world example_world "''Widget''" ?w1
        "''/repo/node_modules/lerna/package.json''" ?c1 ?c2 "Some 2",
        OF example_root_checked example_env_simps(2) nss prior new widget_names(2) files
        example_env_simps(4) c1 refl]
    by (simp add: shown)
qed


text \<open>
  C4, as amended. With the family and the base name that the split of a namespace
  yields, the module name is the lower-cased family, a hyphen, and the lower-cased base
  name, lowered by the rules of the host's locale; no capital letter of ASCII is left in
  it. For a namespace written \<open>family::baseName\<close>, where the first separator is the one
  written (the family followed by a colon has no separator inside) and the base name has
  none, these two are the family and the base name. Two generations for the same
  namespace on hosts of the same locale announce the same module name, whatever else
  differs between them. Across locales the name is not the same: see the counterexample.
\<close>

theorem moduleName_lowercase:
  "(moduleBaseName namespace = Some base \<longrightarrow>
      moduleName loc namespace
        = toLocaleLowerCase loc (moduleFamily namespace) @ ''-'' @ toLocaleLowerCase loc base)
   \<and> ((\<nexists>a b. family @ '':'' = a @ ''::'' @ b) \<and> (\<nexists>a b. baseName = a @ ''::'' @ b) \<longrightarrow>
        moduleFamily (family @ ''::'' @ baseName) = family
        \<and> moduleBaseName (family @ ''::'' @ baseName) = Some baseName
        \<and> moduleName loc (family @ ''::'' @ baseName)
            = toLocaleLowerCase loc family @ ''-'' @ toLocaleLowerCase loc baseName)
   \<and> (\<forall>c \<in> set (moduleName loc namespace). c \<notin> set ''ABCDEFGHIJKLMNOPQRSTUVWXYZ'')
   \<and> (host_locale env1 = host_locale env2
        \<and> generate env1 root1 version1 namespace w1 = (Inr (), w1')
        \<and> generate env2 root2 version2 namespace w2 = (Inr (), w2') \<longrightarrow>
        drop (length (trace w1)) (trace w1') ! 0
          = ConsoleLog (''generating module for @aws-cdk/''
                        @ moduleName (host_locale env1) namespace @ ''...'')
        \<and> drop (length (trace w2)) (trace w2') ! 0
          = ConsoleLog (''generating module for @aws-cdk/''
                        @ moduleName (host_locale env1) namespace @ ''...''))"
proof (intro conjI impI ballI)
  assume "moduleBaseName namespace = Some base"
  then show "moduleName loc namespace
      = toLocaleLowerCase loc (moduleFamily namespace) @ ''-'' @ toLocaleLowerCase loc base"
    by (rule moduleName_with_base)
next
  assume "(\<nexists>a b. family @ '':'' = a @ ''::'' @ b) \<and> (\<nexists>a b. baseName = a @ ''::'' @ b)"
  then have "\<not> has_sep (family @ '':'')" and "\<not> has_sep baseName"
    by (simp_all add: has_sep_iff)
  then have pieces: "split (family @ ''::'' @ baseName) = [family, baseName]"
    by (rule split_two)
  show family: "moduleFamily (family @ ''::'' @ baseName) = family"
    by (simp add: moduleFamily_def pieces del: append.simps)
  show base: "moduleBaseName (family @ ''::'' @ baseName) = Some baseName"
    by (simp add: moduleBaseName_def pieces del: append.simps)
  show "moduleName loc (family @ ''::'' @ baseName)
      = toLocaleLowerCase loc family @ ''-'' @ toLocaleLowerCase loc baseName"
    using moduleName_with_base [OF base] family by simp
next
  fix c
  assume "c \<in> set (moduleName loc namespace)"
  then show "c \<notin> set ''ABCDEFGHIJKLMNOPQRSTUVWXYZ''"
    unfolding moduleName_def by (rule toLocaleLowerCase_no_capital)
next
  assume runs: "host_locale env1 = host_locale env2
      \<and> generate env1 root1 version1 namespace w1 = (Inr (), w1')
      \<and> generate env2 root2 version2 namespace w2 = (Inr (), w2')"
  have first: "drop (length (trace w)) (trace w') ! 0
      = ConsoleLog (''generating module for @aws-cdk/'' @ moduleName (host_locale env) namespace
                    @ ''...'')"
    if "generate env root version namespace w = (Inr (), w')" for env root version w w'
    using generate_Inr [OF that]
    by (auto simp: trace_record_events emitted_events_def generating_def packageName_def)
  from runs first [of env1 root1 version1 w1 w1']
  show "drop (length (trace w1)) (trace w1') ! 0
      = ConsoleLog (''generating module for @aws-cdk/''
                    @ moduleName (host_locale env1) namespace @ ''...'')"
    by blast
  from runs first [of env2 root2 version2 w2 w2']
  show "drop (length (trace w2)) (trace w2') ! 0
      = ConsoleLog (''generating module for @aws-cdk/''
                    @ moduleName (host_locale env1) namespace @ ''...'')"
    by simp
qed

theorem moduleName_lowercase_witness:
  "moduleBaseName ''AWS::S3'' = Some ''S3''
   \<and> \<not> has_sep (''AWS'' @ '':'') \<and> \<not> has_sep ''S3''
   \<and> moduleName NotTurkic ''AWS::S3'' = ''aws-s3''
   \<and> moduleName NotTurkic (''AWS'' @ ''::'' @ ''S3'') = ''aws-s3''
   \<and> CHR ''a'' \<in> set (moduleName NotTurkic ''AWS::S3'')
   \<and> host_locale (example_env [] (ChildExit (Some 0)))
       = host_locale (example_env [''AWS::EC2''] (ChildExit (Some 0)))
   \<and> trace (snd (generate (example_env [] (ChildExit (Some 0))) example_root ''1.2.3''
                    ''AWS::S3'' example_world)) ! 0
       = ConsoleLog ''generating module for @aws-cdk/aws-s3...''
   \<and> trace (snd (generate (example_env [''AWS::EC2''] (ChildExit (Some 0))) ''/elsewhere''
                    ''9.9.9'' ''AWS::S3'' example_world)) ! 0
       = ConsoleLog ''generating module for @aws-cdk/aws-s3...''"
proof -
  let ?env1 = "example_env [] (ChildExit (Some 0))"
  let ?env2 = "example_env [''AWS::EC2''] (ChildExit (Some 0))"
  have base: "moduleBaseName ''AWS::S3'' = Some ''S3''"
    by (simp add: moduleBaseName_def split_def)
  have none: "\<not> has_sep (''AWS'' @ '':'')" "\<not> has_sep ''S3''"
    by simp_all
  then have form: "(\<nexists>a b. ''AWS'' @ '':'' = a @ ''::'' @ b) \<and> (\<nexists>a b. ''S3'' = a @ ''::'' @ b)"
    by (simp only: has_sep_iff not_False_eq_True simp_thms)
  have lower: "toLocaleLowerCase NotTurkic ''AWS'' = ''aws''"
    "toLocaleLowerCase NotTurkic ''S3'' = ''s3''"
    by (simp_all add: toLocaleLowerCase_def lower_char_def)
  have family: "moduleFamily ''AWS::S3'' = ''AWS''"
    by (simp add: moduleFamily_def split_def)
  have same: "host_locale ?env1 = host_locale ?env2"
    by (simp add: example_env_simps)
  have run: "\<exists>w'. generate (example_env nss (ChildExit (Some 0))) root version ''AWS::S3'' w
      = (Inr (), w')" for nss root version w
    using generate_no_fault [of "example_env nss (ChildExit (Some 0))" "[''LICENSE'', ''NOTICE'']"
        "''/repo/node_modules/lerna/package.json''" "''AWS::S3''" "''S3''" root version w]
    by (simp add: example_env_simps base)
  from run [of "[]" example_root "''1.2.3''" example_world] obtain wa
    where first: "generate ?env1 example_root ''1.2.3'' ''AWS::S3'' example_world = (Inr (), wa)"
    by blast
  from run [of "[''AWS::EC2'']" "''/elsewhere''" "''9.9.9''" example_world] obtain wb
    where second: "generate ?env2 ''/elsewhere'' ''9.9.9'' ''AWS::S3'' example_world = (Inr (), wb)"
    by blast
  note facts = moduleName_lowercase [of "''AWS::S3''" "''S3''" NotTurkic "''AWS''" "''S3''"
      ?env1 ?env2 example_root "''1.2.3''" example_world wa "''/elsewhere''" "''9.9.9''"
      example_world wb]
  from facts base lower family have name: "moduleName NotTurkic ''AWS::S3'' = ''aws-s3''"
    by simp
  from facts form lower have written: "moduleName NotTurkic (''AWS'' @ ''::'' @ ''S3'') = ''aws-s3''"
    by simp
  have start: "trace example_world = []"
    by (simp add: example_world_def)
  from facts same first second have logs:
    "trace wa ! 0 = ConsoleLog (''generating module for @aws-cdk/''
       @ moduleName (host_locale ?env1) ''AWS::S3'' @ ''...'')"
    "trace wb ! 0 = ConsoleLog (''generating module for @aws-cdk/''
       @ moduleName (host_locale ?env1) ''AWS::S3'' @ ''...'')"
    by (simp_all add: start)
  from base none name written same logs show ?thesis
    by (simp add: first second example_env_simps)
qed

theorem moduleName_locale_counterexample:
  "host_locale (example_env [] (ChildExit (Some 0))) = NotTurkic
   \<and> host_locale turkish_env = Turkic
   \<and> moduleName (host_locale (example_env [] (ChildExit (Some 0)))) ''AWS::IAM'' = ''aws-iam''
   \<and> moduleName (host_locale turkish_env) ''AWS::IAM'' = ''aws-'' @ [CHR 0xC4, CHR 0xB1] @ ''am''
   \<and> moduleName (host_locale turkish_env) ''AWS::IAM''
       \<noteq> moduleName (host_locale (example_env [] (ChildExit (Some 0)))) ''AWS::IAM''
   \<and> trace (snd (generate (example_env [] (ChildExit (Some 0))) example_root ''1.2.3''
                    ''AWS::IAM'' example_world)) ! 0
       = ConsoleLog ''generating module for @aws-cdk/aws-iam...''
   \<and> trace (snd (generate turkish_env example_root ''1.2.3'' ''AWS::IAM'' example_world)) ! 0
       = ConsoleLog (''generating module for @aws-cdk/aws-'' @ [CHR 0xC4, CHR 0xB1] @ ''am...'')"
proof -
  have here: "generate (example_env [] (ChildExit (Some 0))) example_root ''1.2.3'' ''AWS::IAM''
      example_world
    = (Inr (), record_events
        (emitted_events NotTurkic ''/repo/packages/@aws-cdk/cfnspec/build-tools'' example_root
           ''1.2.3'' ''AWS::IAM'' ''IAM'' [''LICENSE'', ''NOTICE'']
         @ [Spawn (bootstrap_command ''/repo/node_modules/lerna/cli.js''
                     (packageName NotTurkic ''AWS::IAM'')),
            Spawn (build_command ''/repo/node_modules/lerna/cli.js''
                     (packageName NotTurkic ''AWS::IAM''))]) example_world)"
    using generate_no_fault [of "example_env [] (ChildExit (Some 0))" "[''LICENSE'', ''NOTICE'']"
        "''/repo/node_modules/lerna/package.json''" "''AWS::IAM''" "''IAM''" example_root
        "''1.2.3''" example_world]
    by (simp add: example_env_simps iam_names example_lerna)
  have there: "generate turkish_env example_root ''1.2.3'' ''AWS::IAM'' example_world
    = (Inr (), record_events
        (emitted_events Turkic ''/repo/packages/@aws-cdk/cfnspec/build-tools'' example_root
           ''1.2.3'' ''AWS::IAM'' ''IAM'' [''LICENSE'', ''NOTICE'']
         @ [Spawn (bootstrap_command ''/repo/node_modules/lerna/cli.js''
                     (packageName Turkic ''AWS::IAM'')),
            Spawn (build_command ''/repo/node_modules/lerna/cli.js''
                     (packageName Turkic ''AWS::IAM''))]) example_world)"
    using generate_no_fault [of turkish_env "[''LICENSE'', ''NOTICE'']"
        "''/repo/node_modules/lerna/package.json''" "''AWS::IAM''" "''IAM''" example_root
        "''1.2.3''" example_world]
    by (simp add: turkish_env_simps iam_names example_lerna)
  have start: "trace example_world = []"
    by (simp add: example_world_def)
  show ?thesis
    by (simp add: here there trace_record_events start emitted_events_def generating_def
        packageName_def iam_names example_env_simps turkish_env_simps)
qed

text \<open>
  C5. When the family is \<^verbatim>\<open>AWS\<close> the Java artifact identifier is the lower-cased
  base name alone and the Java package is \<^verbatim>\<open>services.\<close> followed by it; for any other
  family the lower-cased family stands in front, joined with a hyphen in the artifact
  identifier and with a dot in the package. These are the identifiers the manifest
  carries.
\<close>

theorem java_identifiers:
  "(family = ''AWS'' \<longrightarrow>
      javaArtifactId loc family low = low \<and> javaPackage loc family low = ''services.'' @ low)
   \<and> (family \<noteq> ''AWS'' \<longrightarrow>
        javaArtifactId loc family low = toLocaleLowerCase loc family @ ''-'' @ low
        \<and> javaPackage loc family low = toLocaleLowerCase loc family @ ''.'' @ low)
   \<and> property_at [''jsii'', ''targets'', ''java'', ''maven'', ''artifactId'']
        (JObject (package_json loc namespace version family base))
       = Some (JString (javaArtifactId loc family (toLocaleLowerCase loc base)))
   \<and> property_at [''jsii'', ''targets'', ''java'', ''package'']
        (JObject (package_json loc namespace version family base))
       = Some (JString (''software.amazon.awscdk.''
                         @ javaPackage loc family (toLocaleLowerCase loc base)))"
proof -
  have "property_at [''jsii'', ''targets'', ''java'', ''maven'', ''artifactId'']
        (JObject (package_json loc namespace version family base))
       = Some (JString (javaArtifactId loc family (toLocaleLowerCase loc base)))"
    by (simp add: package_json_def Let_def property_def)
  moreover have "property_at [''jsii'', ''targets'', ''java'', ''package'']
        (JObject (package_json loc namespace version family base))
       = Some (JString (''software.amazon.awscdk.''
                         @ javaPackage loc family (toLocaleLowerCase loc base)))"
    by (simp add: package_json_def Let_def property_def javaGroupId_def)
  ultimately show ?thesis
    by (simp add: javaArtifactId_def javaPackage_def)
qed

theorem java_identifiers_witness:
  "javaArtifactId NotTurkic ''AWS'' ''s3'' = ''s3'' \<and> javaPackage NotTurkic ''AWS'' ''s3'' = ''services.s3''
   \<and> ''Family'' \<noteq> ''AWS''
   \<and> javaArtifactId NotTurkic ''Family'' ''widget'' = ''family-widget''
   \<and> javaPackage NotTurkic ''Family'' ''widget'' = ''family.widget''"
proof -
  have lower: "toLocaleLowerCase NotTurkic ''Family'' = ''family''"
    by (simp add: toLocaleLowerCase_def lower_char_def)
  have other: "''Family'' \<noteq> ''AWS''"
    by simp
  from lower other show ?thesis
    using java_identifiers [of "''AWS''" NotTurkic "''s3''" "''AWS::S3''" "''1.2.3''" "''S3''"]
      java_identifiers [of "''Family''" NotTurkic "''widget''" "''Family::Widget''" "''1.2.3''"
        "''Widget''"]
    by simp
qed


text \<open>
  C6. For the namespace \<^verbatim>\<open>Family::Widget\<close> and the version \<^verbatim>\<open>1.2.3\<close>: the split
  gives the family \<^verbatim>\<open>Family\<close> and the base name \<^verbatim>\<open>Widget\<close>; in every locale the
  name of the manifest is \<^verbatim>\<open>@aws-cdk/family-widget\<close> and its dependencies and
  devDependencies pin every package to \<^verbatim>\<open>^1.2.3\<close>; and a run over this namespace,
  with that version, writes this manifest, serialised and followed by a line feed, to
  \<^verbatim>\<open>package.json\<close> in the directory of the module.
\<close>

theorem widget_manifest:
  "moduleFamily ''Family::Widget'' = ''Family''
   \<and> moduleBaseName ''Family::Widget'' = Some ''Widget''
   \<and> property ''name'' (JObject (package_json loc ''Family::Widget'' ''1.2.3'' ''Family'' ''Widget''))
       = Some (JString ''@aws-cdk/family-widget'')
   \<and> property ''dependencies''
        (JObject (package_json loc ''Family::Widget'' ''1.2.3'' ''Family'' ''Widget''))
       = Some (JObject [(''@aws-cdk/cdk'', JString ''^1.2.3'')])
   \<and> property ''devDependencies''
        (JObject (package_json loc ''Family::Widget'' ''1.2.3'' ''Family'' ''Widget''))
       = Some (JObject
           [(''@aws-cdk/assert'', JString ''^1.2.3''),
            (''cdk-build-tools'', JString ''^1.2.3''),
            (''cfn2ts'', JString ''^1.2.3''),
            (''pkglint'', JString ''^1.2.3'')])
   \<and> package_json_version (example_env [''Family::Widget''] (ChildExit (Some 0))) = Inr ''1.2.3''
   \<and> WriteFile ''/repo/packages/@aws-cdk/family-widget/package.json''
        (stringify (JObject (package_json NotTurkic ''Family::Widget'' ''1.2.3'' ''Family'' ''Widget''))
         @ [CHR 0x0A])
       \<in> set (trace (snd (run (example_env [''Family::Widget''] (ChildExit (Some 0)))
                              example_world)))"
proof -
  have fields:
    "property ''name'' (JObject (package_json loc ''Family::Widget'' ''1.2.3'' ''Family'' ''Widget''))
       = Some (JString ''@aws-cdk/family-widget'')"
    "property ''dependencies''
        (JObject (package_json loc ''Family::Widget'' ''1.2.3'' ''Family'' ''Widget''))
       = Some (JObject [(''@aws-cdk/cdk'', JString ''^1.2.3'')])"
    "property ''devDependencies''
        (JObject (package_json loc ''Family::Widget'' ''1.2.3'' ''Family'' ''Widget''))
       = Some (JObject
           [(''@aws-cdk/assert'', JString ''^1.2.3''),
            (''cdk-build-tools'', JString ''^1.2.3''),
            (''cfn2ts'', JString ''^1.2.3''),
            (''pkglint'', JString ''^1.2.3'')])"
    by (simp_all add: package_json_def Let_def property_def widget_names)
  have path: "join [''/repo/packages/@aws-cdk/family-widget'', ''package.json'']
      = ''/repo/packages/@aws-cdk/family-widget/package.json''"
    by (simp add: path_defs)
  have written: "WriteFile ''/repo/packages/@aws-cdk/family-widget/package.json''
        (stringify (JObject (package_json NotTurkic ''Family::Widget'' ''1.2.3'' ''Family'' ''Widget''))
         @ [CHR 0x0A])
       \<in> set (trace (snd (run (example_env [''Family::Widget''] (ChildExit (Some 0)))
                              example_world)))"
    by (simp add: run_def example_generation trace_record_events emitted_events_def
        file_events_def Let_def write_events_def widget_names newline_def path
        del: append.simps)
  from fields written show ?thesis
    by (simp add: widget_names example_env_simps)
qed


text \<open>
  C7. When the name of the root directory is not \<^verbatim>\<open>@aws-cdk\<close>, \<open>main\<close> is rejected
  with the error of the sanity check in the world it started in: nothing was written and
  no namespace was looked at. Every other error thrown in the run rejects \<open>main\<close> with
  that very error, in the world reached when it was thrown: the error of reading the
  version; for a namespace at any place of the list, the type error of a missing base
  name, the error of the first file-system call that fails while the six files are
  written, the error of listing the template, the error of the first copy that fails,
  the error of resolving the build orchestrator, and the error event of either child
  process. A rejection of the body of the loop is the rejection of \<open>main\<close>, whatever
  namespaces remain. Whatever error rejects \<open>main\<close>, the process prints it, once and
  as its last event, and ends with status 1; a run that is not rejected ends with
  status 0 and prints no error.
\<close>

theorem errors_reach_the_top:
  assumes loc: "loc = host_locale env"
    and g: "g = generating loc namespace"
    and fs: "fs = file_events loc (root_of env) version namespace base"
    and dir: "dir = join [script_dirname env, ''template'']"
    and dest: "dest = pacakgePath loc (root_of env) namespace"
    and c1: "c1 = bootstrap_command (join [dirname resolved, ''cli.js'']) (packageName loc namespace)"
    and c2: "c2 = build_command (join [dirname resolved, ''cli.js'']) (packageName loc namespace)"
  shows "(basename (root_of env) \<noteq> ''@aws-cdk'' \<longrightarrow>
            main env w = (Inl (wrong_root_error (root_of env)), w))
       \<and> (basename (root_of env) = ''@aws-cdk'' \<and> package_json_version env = Inl e \<longrightarrow>
            main env w = (Inl e, w))
       \<and> (basename (root_of env) = ''@aws-cdk'' \<and> package_json_version env = Inr version
            \<and> namespaces env = before @ namespace # rest
            \<and> for_namespaces env (root_of env) version before w = (Inr (), w0)
            \<and> dest \<notin> paths w0
            \<and> generate env (root_of env) version namespace w0 = (Inl e, w1) \<longrightarrow>
            main env w = (Inl e, w1))
       \<and> (moduleBaseName namespace = None \<longrightarrow>
            generate env (root_of env) version namespace w0 = (Inl undefined_base_error, w0))
       \<and> (moduleBaseName namespace = Some base \<and> fs = pre @ ev # post
            \<and> clean env (record_event g w0) pre
            \<and> fs_fault env (record_events (g # pre) w0) ev = Some e \<longrightarrow>
            generate env (root_of env) version namespace w0
              = (Inl e, record_events (g # pre) w0))
       \<and> (moduleBaseName namespace = Some base \<and> clean env (record_event g w0) fs
            \<and> readdir_result env (record_events (g # fs) w0) dir = Inl e \<longrightarrow>
            generate env (root_of env) version namespace w0
              = (Inl e, record_events (g # fs) w0))
       \<and> (moduleBaseName namespace = Some base \<and> clean env (record_event g w0) fs
            \<and> readdir_result env (record_events (g # fs) w0) dir = Inr files
            \<and> copy_events dir dest files = pre @ ev # post
            \<and> clean env (record_events (g # fs) w0) pre
            \<and> fs_fault env (record_events (g # fs @ pre) w0) ev = Some e \<longrightarrow>
            generate env (root_of env) version namespace w0
              = (Inl e, record_events (g # fs @ pre) w0))
       \<and> (moduleBaseName namespace = Some base
            \<and> emit_files env (root_of env) version namespace base w0 = (Inr (), w1)
            \<and> require_resolve env ''lerna/package.json'' = Inl e \<longrightarrow>
            generate env (root_of env) version namespace w0 = (Inl e, w1))
       \<and> (moduleBaseName namespace = Some base
            \<and> emit_files env (root_of env) version namespace base w0 = (Inr (), w1)
            \<and> require_resolve env ''lerna/package.json'' = Inr resolved
            \<and> spawn env w1 c1 = ChildError e \<longrightarrow>
            generate env (root_of env) version namespace w0
              = (Inl e, record_events [Spawn c1] w1))
       \<and> (moduleBaseName namespace = Some base
            \<and> emit_files env (root_of env) version namespace base w0 = (Inr (), w1)
            \<and> require_resolve env ''lerna/package.json'' = Inr resolved
            \<and> spawn env w1 c1 = ChildExit (Some 0)
            \<and> spawn env (record_events [Spawn c1] w1) c2 = ChildError e \<longrightarrow>
            generate env (root_of env) version namespace w0
              = (Inl e, record_events [Spawn c1, Spawn c2] w1))
       \<and> (\<forall>e w'. main env w = (Inl e, w') \<longrightarrow>
            run env w = (1, record_events [ConsoleError e] w')
            \<and> printed (snd (run env w)) = printed w @ [e])
       \<and> (\<forall>w'. main env w = (Inr (), w') \<longrightarrow>
            run env w = (0, w') \<and> printed (snd (run env w)) = printed w)"
proof -
  let ?gen = "generate env (root_of env) version namespace w0"
  have wrong: "basename (root_of env) \<noteq> ''@aws-cdk'' \<longrightarrow>
      main env w = (Inl (wrong_root_error (root_of env)), w)"
    by (simp add: main_def Let_def throw_def)
  have unread: "basename (root_of env) = ''@aws-cdk'' \<and> package_json_version env = Inl e \<longrightarrow>
      main env w = (Inl e, w)"
    by (simp add: main_def Let_def await_def lift_def)
  have body: "basename (root_of env) = ''@aws-cdk'' \<and> package_json_version env = Inr version
      \<and> namespaces env = before @ namespace # rest
      \<and> for_namespaces env (root_of env) version before w = (Inr (), w0)
      \<and> dest \<notin> paths w0 \<and> ?gen = (Inl e, w1) \<longrightarrow>
      main env w = (Inl e, w1)"
    unfolding dest loc by (blast intro: main_rejected_in_loop)
  have nameless: "moduleBaseName namespace = None \<longrightarrow> ?gen = (Inl undefined_base_error, w0)"
    by (simp add: generate_def throw_def)
  have written: "moduleBaseName namespace = Some base \<and> fs = pre @ ev # post
      \<and> clean env (record_event g w0) pre
      \<and> fs_fault env (record_events (g # pre) w0) ev = Some e \<longrightarrow>
      ?gen = (Inl e, record_events (g # pre) w0)"
    unfolding fs g loc
    by (blast intro: generate_files_rejected emit_files_fault_in_files)
  have listed: "moduleBaseName namespace = Some base \<and> clean env (record_event g w0) fs
      \<and> readdir_result env (record_events (g # fs) w0) dir = Inl e \<longrightarrow>
      ?gen = (Inl e, record_events (g # fs) w0)"
    unfolding fs g loc dir
    by (blast intro: generate_files_rejected emit_files_readdir_error)
  have copied: "moduleBaseName namespace = Some base \<and> clean env (record_event g w0) fs
      \<and> readdir_result env (record_events (g # fs) w0) dir = Inr files
      \<and> copy_events dir dest files = pre @ ev # post
      \<and> clean env (record_events (g # fs) w0) pre
      \<and> fs_fault env (record_events (g # fs @ pre) w0) ev = Some e \<longrightarrow>
      ?gen = (Inl e, record_events (g # fs @ pre) w0)"
    unfolding fs g loc dir dest
    by (blast intro: generate_files_rejected emit_files_fault_in_copy)
  have unresolved: "moduleBaseName namespace = Some base
      \<and> emit_files env (root_of env) version namespace base w0 = (Inr (), w1)
      \<and> require_resolve env ''lerna/package.json'' = Inl e \<longrightarrow>
      ?gen = (Inl e, w1)"
    by (simp add: generate_def Let_def await_def lift_def)
  have build: "?gen = await (exec env c1) (\<lambda>_. exec env c2) w1"
    if "moduleBaseName namespace = Some base"
      and "emit_files env (root_of env) version namespace base w0 = (Inr (), w1)"
      and "require_resolve env ''lerna/package.json'' = Inr resolved"
    unfolding c1 c2 loc using that by (rule generate_after_files)
  have child1: "moduleBaseName namespace = Some base
      \<and> emit_files env (root_of env) version namespace base w0 = (Inr (), w1)
      \<and> require_resolve env ''lerna/package.json'' = Inr resolved
      \<and> spawn env w1 c1 = ChildError e \<longrightarrow>
      ?gen = (Inl e, record_events [Spawn c1] w1)"
    by (auto simp: build await_def exec_outcome)
  have child2: "moduleBaseName namespace = Some base
      \<and> emit_files env (root_of env) version namespace base w0 = (Inr (), w1)
      \<and> require_resolve env ''lerna/package.json'' = Inr resolved
      \<and> spawn env w1 c1 = ChildExit (Some 0)
      \<and> spawn env (record_events [Spawn c1] w1) c2 = ChildError e \<longrightarrow>
      ?gen = (Inl e, record_events [Spawn c1, Spawn c2] w1)"
    by (auto simp: build await_def exec_outcome record_events_Cons record_events_Nil)
  have quiet: "printed w' = printed w" if "main env w = (r, w')" for r w'
    using keepsD [OF keeps_printed_main refl that] .
  have caught: "\<forall>e w'. main env w = (Inl e, w') \<longrightarrow>
      run env w = (1, record_events [ConsoleError e] w')
      \<and> printed (snd (run env w)) = printed w @ [e]"
    by (auto simp: run_def record_events_Cons record_events_Nil printed_record_event
        dest: quiet)
  have fulfilled: "\<forall>w'. main env w = (Inr (), w') \<longrightarrow>
      run env w = (0, w') \<and> printed (snd (run env w)) = printed w"
    by (auto simp: run_def dest: quiet)
  from wrong unread body nameless written listed copied unresolved child1 child2 caught
    fulfilled
  show ?thesis
    by (intro conjI)
qed

theorem errors_reach_the_top_witness:
  "run full_disk_env example_world
     = (1, record_events
             (generating NotTurkic ''Family::Widget''
              # file_events NotTurkic example_root ''1.2.3'' ''Family::Widget'' ''Widget''
              @ [ConsoleError (SystemError ''ENOSPC'')])
             example_world)
   \<and> printed (snd (run full_disk_env example_world)) = [SystemError ''ENOSPC'']
   \<and> basename (root_of misplaced_env) \<noteq> ''@aws-cdk''
   \<and> run misplaced_env example_world
       = (1, \<lparr>paths = paths example_world,
              trace = [ConsoleError (wrong_root_error ''/home/me'')]\<rparr>)
   \<and> run (example_env [''AWS::S3''] (ChildExit (Some 0))) example_world = (0, example_world)"
proof -
  let ?g = "generating NotTurkic ''Family::Widget''"
  let ?fs = "file_events NotTurkic example_root ''1.2.3'' ''Family::Widget'' ''Widget''"
  let ?dir = "join [''/repo/packages/@aws-cdk/cfnspec/build-tools'', ''template'']"
  let ?dest = "pacakgePath NotTurkic example_root ''Family::Widget''"
  let ?e = "SystemError ''ENOSPC''"
  let ?w1 = "record_events (?g # ?fs) example_world"
  have loc: "NotTurkic = host_locale full_disk_env"
    by (simp add: full_disk_env_simps)
  have fs: "?fs = file_events NotTurkic (root_of full_disk_env) ''1.2.3'' ''Family::Widget''
      ''Widget''"
    by (simp only: full_disk_env_simps)
  have dir: "?dir = join [script_dirname full_disk_env, ''template'']"
    by (simp only: full_disk_env_simps)
  have dest: "?dest = pacakgePath NotTurkic (root_of full_disk_env) ''Family::Widget''"
    by (simp only: full_disk_env_simps)
  note full = errors_reach_the_top [where loc = NotTurkic and env = full_disk_env
      and g = ?g and namespace = "''Family::Widget''" and fs = ?fs
      and version = "''1.2.3''" and base = "''Widget''" and dir = ?dir and dest = ?dest
      and w = example_world and e = ?e
      and before = "[''AWS::S3'']" and rest = "[''AWS::EC2'']" and ?w0.0 = example_world
      and ?w1.0 = ?w1 and pre = "[]"
      and ev = "Copy (join [?dir, ''LICENSE'']) (join [?dest, ''LICENSE''])"
      and post = "[Copy (join [?dir, ''NOTICE'']) (join [?dest, ''NOTICE''])]"
      and files = "[''LICENSE'', ''NOTICE'']",
      OF loc refl fs dir dest refl refl]
  note body = full [THEN conjunct2, THEN conjunct2, THEN conjunct1]
  note copied = full [THEN conjunct2, THEN conjunct2, THEN conjunct2, THEN conjunct2,
      THEN conjunct2, THEN conjunct2, THEN conjunct1]
  note caught = full [THEN conjunct2, THEN conjunct2, THEN conjunct2, THEN conjunct2,
      THEN conjunct2, THEN conjunct2, THEN conjunct2, THEN conjunct2, THEN conjunct2,
      THEN conjunct2, THEN conjunct1]
  have root: "basename (root_of full_disk_env) = ''@aws-cdk''"
    by (simp add: full_disk_env_simps example_root_name)
  have ver: "package_json_version full_disk_env = Inr ''1.2.3''"
    by (simp add: full_disk_env_simps)
  have nss: "namespaces full_disk_env = [''AWS::S3''] @ ''Family::Widget'' # [''AWS::EC2'']"
    by (simp add: full_disk_env_simps)
  have prior: "for_namespaces full_disk_env (root_of full_disk_env) ''1.2.3'' [''AWS::S3'']
      example_world = (Inr (), example_world)"
    by (simp add: full_disk_env_simps example_s3_path example_world_def await_def
        pathExists_def return_def)
  have new: "?dest \<notin> paths example_world"
    by (simp add: widget_names example_world_def)
  have written: "clean full_disk_env (record_event ?g example_world) ?fs"
    by (simp add: file_events_def Let_def write_events_def full_disk_env_simps)
  have listed: "readdir_result full_disk_env ?w1 ?dir = Inr [''LICENSE'', ''NOTICE'']"
    by (simp add: full_disk_env_simps)
  have copies: "copy_events ?dir ?dest [''LICENSE'', ''NOTICE'']
      = [] @ Copy (join [?dir, ''LICENSE'']) (join [?dest, ''LICENSE''])
        # [Copy (join [?dir, ''NOTICE'']) (join [?dest, ''NOTICE''])]"
    by (simp add: copy_events_def)
  have unspoilt: "clean full_disk_env ?w1 []"
    by simp
  have fault: "fs_fault full_disk_env (record_events (?g # ?fs @ []) example_world)
      (Copy (join [?dir, ''LICENSE'']) (join [?dest, ''LICENSE''])) = Some ?e"
    by (simp add: full_disk_env_simps)
  have gen: "generate full_disk_env (root_of full_disk_env) ''1.2.3'' ''Family::Widget''
      example_world = (Inl ?e, record_events (?g # ?fs @ []) example_world)"
    by (rule mp [OF copied]) (intro conjI widget_names(2) written listed copies unspoilt fault)
  then have gen': "generate full_disk_env (root_of full_disk_env) ''1.2.3'' ''Family::Widget''
      example_world = (Inl ?e, ?w1)"
    by (simp only: append_Nil2)
  have rejected: "main full_disk_env example_world = (Inl ?e, ?w1)"
    by (rule mp [OF body]) (intro conjI root ver nss prior new gen')
  have first: "run full_disk_env example_world = (1, record_events [ConsoleError ?e] ?w1)
    \<and> printed (snd (run full_disk_env example_world)) = printed example_world @ [?e]"
    using caught rejected by blast
  have misplaced: "root_of misplaced_env = ''/home/me''"
    by (simp add: misplaced_env_def example_env_def root_of_def path_defs)
  have wrong: "basename (root_of misplaced_env) \<noteq> ''@aws-cdk''"
    by (simp add: misplaced basename_def)
  note lost = errors_reach_the_top [where env = misplaced_env and w = example_world,
      OF refl refl refl refl refl refl refl]
  have "main misplaced_env example_world
      = (Inl (wrong_root_error (root_of misplaced_env)), example_world)"
    using lost [THEN conjunct1] wrong by blast
  then have second: "run misplaced_env example_world
      = (1, record_events [ConsoleError (wrong_root_error (root_of misplaced_env))]
          example_world)"
    using lost [THEN conjunct2, THEN conjunct2, THEN conjunct2, THEN conjunct2,
      THEN conjunct2, THEN conjunct2, THEN conjunct2, THEN conjunct2, THEN conjunct2,
      THEN conjunct2, THEN conjunct1]
    by blast
  let ?ok = "example_env [''AWS::S3''] (ChildExit (Some 0))"
  have "main ?ok example_world = (Inr (), example_world)"
    by (simp add: main_checked [OF example_root_checked example_env_simps(2)] example_env_simps
        example_root_of example_s3_path example_world_def await_def pathExists_def return_def)
  then have third: "run ?ok example_world = (0, example_world)"
    using errors_reach_the_top [where env = ?ok and w = example_world,
      OF refl refl refl refl refl refl refl, THEN conjunct2, THEN conjunct2, THEN conjunct2,
      THEN conjunct2, THEN conjunct2, THEN conjunct2, THEN conjunct2, THEN conjunct2,
      THEN conjunct2, THEN conjunct2, THEN conjunct2]
    by blast
  have none: "printed example_world = []"
    by (simp add: printed_def example_world_def)
  have whole: "record_events [ConsoleError ?e] ?w1
      = record_events (?g # ?fs @ [ConsoleError ?e]) example_world"
    by (simp only: record_events_append [symmetric] append_Cons)
  have plain: "record_events [ConsoleError (wrong_root_error (root_of misplaced_env))]
      example_world
      = \<lparr>paths = paths example_world,
         trace = [ConsoleError (wrong_root_error ''/home/me'')]\<rparr>"
    by (simp add: misplaced record_events_Cons record_events_Nil record_event_def
        example_world_def)
  from first [unfolded none whole append_Nil] wrong second [unfolded plain] third
  show ?thesis
    by blast
qed

text \<open>
  C8, as amended. The second line of the entry point, the re-export, is made of the
  lower-cased base name and fixed text, whatever the namespace. Any two successful
  generations for one namespace on hosts of the same locale, in whatever environment,
  root, version and world otherwise (in particular a second generation in the world the
  first one left), write the same bytes to \<^verbatim>\<open>lib/index.ts\<close> of the module, as their
  ninth event: a comment naming the namespace and the re-export. Across locales the
  bytes are not the same: see the counterexample.
\<close>

theorem entry_point_reproducible:
  assumes "host_locale env1 = host_locale env2"
    and "generate env1 root1 version1 namespace w1 = (Inr (), w1')"
    and "generate env2 root2 version2 namespace w2 = (Inr (), w2')"
  shows "\<exists>base.
           moduleBaseName namespace = Some base
           \<and> index_ts anyNamespace (toLocaleLowerCase (host_locale env1) base) ! 1
               = ''export * from './'' @ toLocaleLowerCase (host_locale env1) base
                 @ ''.generated';''
           \<and> drop (length (trace w1)) (trace w1') ! 8
               = WriteFile (join [pacakgePath (host_locale env1) root1 namespace, ''lib/index.ts''])
                   (''// '' @ namespace @ '' CloudFormation Resources:'' @ newline
                    @ ''export * from './'' @ toLocaleLowerCase (host_locale env1) base
                    @ ''.generated';'' @ newline)
           \<and> drop (length (trace w2)) (trace w2') ! 8
               = WriteFile (join [pacakgePath (host_locale env2) root2 namespace, ''lib/index.ts''])
                   (''// '' @ namespace @ '' CloudFormation Resources:'' @ newline
                    @ ''export * from './'' @ toLocaleLowerCase (host_locale env1) base
                    @ ''.generated';'' @ newline)"
proof -
  have ninth: "\<exists>base. moduleBaseName namespace = Some base
      \<and> drop (length (trace w)) (trace w') ! 8
          = WriteFile (join [pacakgePath (host_locale env) root namespace, ''lib/index.ts''])
              (''// '' @ namespace @ '' CloudFormation Resources:'' @ newline
               @ ''export * from './'' @ toLocaleLowerCase (host_locale env) base
               @ ''.generated';'' @ newline)"
    if "generate env root version namespace w = (Inr (), w')" for env root version w w'
  proof -
    from generate_Inr [OF that] obtain base files resolved where
      base: "moduleBaseName namespace = Some base"
      and w': "w' = record_events
        (emitted_events (host_locale env) (script_dirname env) root version namespace base files
         @ [Spawn (bootstrap_command (join [dirname resolved, ''cli.js''])
                     (packageName (host_locale env) namespace)),
            Spawn (build_command (join [dirname resolved, ''cli.js''])
                     (packageName (host_locale env) namespace))]) w"
      by blast
    have "drop (length (trace w)) (trace w') ! 8
        = emitted_events (host_locale env) (script_dirname env) root version namespace base files
          ! 8"
      using emitted_events_length
        [of "host_locale env" "script_dirname env" root version namespace base files]
      by (simp add: w' trace_record_events nth_append del: append.simps)
    with base show ?thesis
      by (simp add: entry_point_event del: append.simps)
  qed
  from ninth [OF assms(2)] obtain base where
    base: "moduleBaseName namespace = Some base"
    and first: "drop (length (trace w1)) (trace w1') ! 8
      = WriteFile (join [pacakgePath (host_locale env1) root1 namespace, ''lib/index.ts''])
          (''// '' @ namespace @ '' CloudFormation Resources:'' @ newline
           @ ''export * from './'' @ toLocaleLowerCase (host_locale env1) base
           @ ''.generated';'' @ newline)"
    by blast
  from ninth [OF assms(3)] base assms(1) have
    second: "drop (length (trace w2)) (trace w2') ! 8
      = WriteFile (join [pacakgePath (host_locale env2) root2 namespace, ''lib/index.ts''])
          (''// '' @ namespace @ '' CloudFormation Resources:'' @ newline
           @ ''export * from './'' @ toLocaleLowerCase (host_locale env1) base
           @ ''.generated';'' @ newline)"
    by simp
  have line: "index_ts anyNamespace (toLocaleLowerCase (host_locale env1) base) ! 1
      = ''export * from './'' @ toLocaleLowerCase (host_locale env1) base @ ''.generated';''"
    by (simp add: index_ts_def)
  from base line first second show ?thesis
    by blast
qed

theorem entry_point_reproducible_witness:
  "host_locale (example_env [] (ChildExit (Some 0)))
     = host_locale (example_env [] (ChildExit (Some 0)))
   \<and> trace (snd (generate (example_env [] (ChildExit (Some 0))) example_root ''1.2.3''
                    ''Family::Widget'' example_world)) ! 8
       = WriteFile ''/repo/packages/@aws-cdk/family-widget/lib/index.ts''
           (''// Family::Widget CloudFormation Resources:'' @ newline
            @ ''export * from './widget.generated';'' @ newline)
   \<and> drop (length (trace (snd (generate (example_env [] (ChildExit (Some 0)))
                                  example_root ''1.2.3'' ''Family::Widget'' example_world))))
       (trace (snd (generate (example_env [] (ChildExit (Some 0))) example_root ''9.9.9''
          ''Family::Widget''
          (snd (generate (example_env [] (ChildExit (Some 0))) example_root ''1.2.3''
                  ''Family::Widget'' example_world))))) ! 8
       = WriteFile ''/repo/packages/@aws-cdk/family-widget/lib/index.ts''
           (''// Family::Widget CloudFormation Resources:'' @ newline
            @ ''export * from './widget.generated';'' @ newline)"
proof -
  let ?env = "example_env [] (ChildExit (Some 0))"
  have run: "\<exists>w'. generate ?env example_root version ''Family::Widget'' w = (Inr (), w')"
    for version w
    using generate_no_fault [of ?env "[''LICENSE'', ''NOTICE'']"
        "''/repo/node_modules/lerna/package.json''" "''Family::Widget''" "''Widget''"
        example_root version w]
    by (simp add: example_env_simps widget_names)
  from run [of "''1.2.3''" example_world] obtain wa
    where first: "generate ?env example_root ''1.2.3'' ''Family::Widget'' example_world
      = (Inr (), wa)"
    by blast
  from run [of "''9.9.9''" wa] obtain wb
    where second: "generate ?env example_root ''9.9.9'' ''Family::Widget'' wa = (Inr (), wb)"
    by blast
  have lower: "toLocaleLowerCase NotTurkic ''Widget'' = ''widget''"
    by (simp add: toLocaleLowerCase_def lower_char_def)
  have path: "join [pacakgePath NotTurkic example_root ''Family::Widget'', ''lib/index.ts'']
      = ''/repo/packages/@aws-cdk/family-widget/lib/index.ts''"
    by (simp add: widget_names path_defs)
  have start: "trace example_world = []"
    by (simp add: example_world_def)
  from entry_point_reproducible [OF refl first second] show ?thesis
    by (simp add: first second widget_names(2) example_env_simps lower path start
        del: append.simps)
qed

theorem entry_point_locale_counterexample:
  "fst (generate (example_env [] (ChildExit (Some 0))) example_root ''1.2.3'' ''AWS::IAM''
          example_world) = Inr ()
   \<and> fst (generate turkish_env example_root ''1.2.3'' ''AWS::IAM'' example_world) = Inr ()
   \<and> trace (snd (generate (example_env [] (ChildExit (Some 0))) example_root ''1.2.3''
                    ''AWS::IAM'' example_world)) ! 8
       = WriteFile ''/repo/packages/@aws-cdk/aws-iam/lib/index.ts''
           (''// AWS::IAM CloudFormation Resources:'' @ [CHR 0x0A]
            @ ''export * from './iam.generated';'' @ [CHR 0x0A])
   \<and> trace (snd (generate turkish_env example_root ''1.2.3'' ''AWS::IAM'' example_world)) ! 8
       = WriteFile (''/repo/packages/@aws-cdk/aws-'' @ [CHR 0xC4, CHR 0xB1] @ ''am/lib/index.ts'')
           (''// AWS::IAM CloudFormation Resources:'' @ [CHR 0x0A]
            @ ''export * from './'' @ [CHR 0xC4, CHR 0xB1] @ ''am.generated';'' @ [CHR 0x0A])
   \<and> ''// AWS::IAM CloudFormation Resources:'' @ [CHR 0x0A]
        @ ''export * from './iam.generated';'' @ [CHR 0x0A]
       \<noteq> ''// AWS::IAM CloudFormation Resources:'' @ [CHR 0x0A]
          @ ''export * from './'' @ [CHR 0xC4, CHR 0xB1] @ ''am.generated';'' @ [CHR 0x0A]"
proof -
  let ?tail = "\<lambda>loc. [Spawn (bootstrap_command ''/repo/node_modules/lerna/cli.js''
                              (packageName loc ''AWS::IAM'')),
                     Spawn (build_command ''/repo/node_modules/lerna/cli.js''
                              (packageName loc ''AWS::IAM''))]"
  have here: "generate (example_env [] (ChildExit (Some 0))) example_root ''1.2.3'' ''AWS::IAM''
      example_world
    = (Inr (), record_events
        (emitted_events NotTurkic ''/repo/packages/@aws-cdk/cfnspec/build-tools'' example_root
           ''1.2.3'' ''AWS::IAM'' ''IAM'' [''LICENSE'', ''NOTICE''] @ ?tail NotTurkic)
        example_world)"
    using generate_no_fault [of "example_env [] (ChildExit (Some 0))" "[''LICENSE'', ''NOTICE'']"
        "''/repo/node_modules/lerna/package.json''" "''AWS::IAM''" "''IAM''" example_root
        "''1.2.3''" example_world]
    by (simp add: example_env_simps iam_names example_lerna)
  have there: "generate turkish_env example_root ''1.2.3'' ''AWS::IAM'' example_world
    = (Inr (), record_events
        (emitted_events Turkic ''/repo/packages/@aws-cdk/cfnspec/build-tools'' example_root
           ''1.2.3'' ''AWS::IAM'' ''IAM'' [''LICENSE'', ''NOTICE''] @ ?tail Turkic)
        example_world)"
    using generate_no_fault [of turkish_env "[''LICENSE'', ''NOTICE'']"
        "''/repo/node_modules/lerna/package.json''" "''AWS::IAM''" "''IAM''" example_root
        "''1.2.3''" example_world]
    by (simp add: turkish_env_simps iam_names example_lerna)
  have start: "trace example_world = []"
    by (simp add: example_world_def)
  have paths:
    "join [pacakgePath NotTurkic example_root ''AWS::IAM'', ''lib/index.ts'']
       = ''/repo/packages/@aws-cdk/aws-iam/lib/index.ts''"
    "join [pacakgePath Turkic example_root ''AWS::IAM'', ''lib/index.ts'']
       = ''/repo/packages/@aws-cdk/aws-'' @ [CHR 0xC4, CHR 0xB1] @ ''am/lib/index.ts''"
    by (simp_all add: pacakgePath_def iam_names example_root_def path_defs)
  have ninth: "(emitted_events loc script_dir root version namespace base files @ rest) ! 8
      = emitted_events loc script_dir root version namespace base files ! 8"
    for loc script_dir root version namespace base files rest
    using emitted_events_length [of loc script_dir root version namespace base files]
    by (simp add: nth_append)
  show ?thesis
    by (simp add: here there trace_record_events start ninth entry_point_event paths iam_names
        newline_def)
qed

text \<open>
  C9. A namespace in which the separator \<^verbatim>\<open>::\<close> does not occur is its own family and
  has no base name; its module name is the lower-cased namespace followed by
  \<^verbatim>\<open>-undefined\<close>, and that is the directory looked for under the root. When the
  directory does not exist, the loop is rejected with the type error of lowering an
  undefined base name, in the world it was in: no module is generated. A run whose first
  namespace is such a one prints that error and ends with status 1.
\<close>

theorem namespace_without_separator:
  assumes "\<nexists>a b. namespace = a @ ''::'' @ b"
  shows "moduleFamily namespace = namespace
       \<and> moduleBaseName namespace = None
       \<and> moduleName loc namespace = toLocaleLowerCase loc namespace @ ''-undefined''
       \<and> pacakgePath loc root namespace = join [root, toLocaleLowerCase loc namespace @ ''-undefined'']
       \<and> (pacakgePath (host_locale env) root namespace \<notin> paths w \<longrightarrow>
            for_namespaces env root version (namespace # rest) w
              = (Inl undefined_base_error, w))
       \<and> (basename (root_of env) = ''@aws-cdk'' \<and> package_json_version env = Inr version
            \<and> namespaces env = namespace # rest
            \<and> pacakgePath (host_locale env) (root_of env) namespace \<notin> paths w \<longrightarrow>
            run env w = (1, record_events [ConsoleError undefined_base_error] w))"
proof -
  from assms have "\<not> has_sep namespace"
    by (simp add: has_sep_iff)
  then have pieces: "split namespace = [namespace]"
    by (rule split_one)
  have family: "moduleFamily namespace = namespace"
    by (simp add: moduleFamily_def pieces)
  have base: "moduleBaseName namespace = None"
    by (simp add: moduleBaseName_def pieces)
  have name: "moduleName loc namespace = toLocaleLowerCase loc namespace @ ''-undefined''"
    using moduleName_without_base [OF base] by (simp add: family)
  have dir: "pacakgePath loc root namespace = join [root, toLocaleLowerCase loc namespace @ ''-undefined'']"
    for root
    by (simp add: pacakgePath_def name)
  have thrown: "generate env root version namespace w = (Inl undefined_base_error, w)" for root
    by (simp add: generate_def base throw_def)
  have loop: "pacakgePath (host_locale env) root namespace \<notin> paths w \<longrightarrow>
      for_namespaces env root version (namespace # rest) w = (Inl undefined_base_error, w)"
    for root
    by (simp add: for_namespaces_new thrown del: for_namespaces.simps)
  have whole: "basename (root_of env) = ''@aws-cdk'' \<and> package_json_version env = Inr version
      \<and> namespaces env = namespace # rest
      \<and> pacakgePath (host_locale env) (root_of env) namespace \<notin> paths w \<longrightarrow>
      run env w = (1, record_events [ConsoleError undefined_base_error] w)"
    using loop [of "root_of env"]
    by (auto simp: run_def main_checked record_events_Cons record_events_Nil
        simp del: for_namespaces.simps)
  from family base name dir loop whole show ?thesis
    by blast
qed

theorem namespace_without_separator_witness:
  "\<not> has_sep ''Bad''
   \<and> moduleName NotTurkic ''Bad'' = ''bad-undefined''
   \<and> pacakgePath NotTurkic example_root ''Bad'' = ''/repo/packages/@aws-cdk/bad-undefined''
   \<and> run (example_env [''Bad'', ''AWS::EC2''] (ChildExit (Some 0))) example_world
       = (1, \<lparr>paths = paths example_world, trace = [ConsoleError undefined_base_error]\<rparr>)"
proof -
  have none: "\<not> has_sep ''Bad''"
    by simp
  then have hyp: "\<nexists>a b. ''Bad'' = a @ ''::'' @ b"
    by (simp only: has_sep_iff not_False_eq_True)
  have lower: "toLocaleLowerCase NotTurkic ''Bad'' = ''bad''"
    by (simp add: toLocaleLowerCase_def lower_char_def)
  have joined: "join [example_root, ''bad-undefined''] = ''/repo/packages/@aws-cdk/bad-undefined''"
    by (simp add: example_root_def path_defs)
  note facts = namespace_without_separator [OF hyp,
      of NotTurkic example_root "example_env [''Bad'', ''AWS::EC2''] (ChildExit (Some 0))"
        example_world "''1.2.3''" "[''AWS::EC2'']"]
  have root: "basename (root_of (example_env [''Bad'', ''AWS::EC2''] (ChildExit (Some 0)))) = ''@aws-cdk''"
    by (simp add: example_root_of example_root_def basename_def)
  have env: "package_json_version (example_env [''Bad'', ''AWS::EC2''] (ChildExit (Some 0))) = Inr ''1.2.3''"
      "namespaces (example_env [''Bad'', ''AWS::EC2''] (ChildExit (Some 0))) = [''Bad'', ''AWS::EC2'']"
    by (simp_all add: example_env_def)
  have dir: "pacakgePath NotTurkic example_root ''Bad'' = ''/repo/packages/@aws-cdk/bad-undefined''"
    using facts by (simp add: lower joined)
  then have absent: "pacakgePath (host_locale (example_env [''Bad'', ''AWS::EC2''] (ChildExit (Some 0))))
      (root_of (example_env [''Bad'', ''AWS::EC2''] (ChildExit (Some 0)))) ''Bad''
      \<notin> paths example_world"
    by (simp add: example_root_of example_env_simps example_world_def)
  have "run (example_env [''Bad'', ''AWS::EC2''] (ChildExit (Some 0))) example_world
      = (1, record_events [ConsoleError undefined_base_error] example_world)"
    using facts root env absent by blast
  moreover have "moduleName NotTurkic ''Bad'' = ''bad-undefined''"
    using facts by (simp add: lower)
  ultimately show ?thesis
    using none dir
    by (simp add: record_events_Cons record_events_Nil record_event_def example_world_def)
qed


text \<open>
  C10, as amended. The write helper is \<open>write_contents\<close>. A call that returns has made
  the directory of the file and has written the file, the data being a body followed by
  one line feed, and these are its only events. When neither file-system call fails:
  for a string the body is what is left of it when no white space is at its front any
  more, what was dropped being white space only; for an array the body is its elements
  joined with single line feeds, so that the file of an array that is not empty is every
  element followed by a line feed; for an object the body is its JSON text, members
  being indented by two spaces a level, and \<^verbatim>\<open>null\<close>, an object to \<^verbatim>\<open>typeof\<close>, is
  written as the text \<^verbatim>\<open>null\<close>. For a value that is neither a string, an array nor an
  object the call never returns: when the directory could be made it is rejected with
  the error of the invalid type and writes no file. The data written ends with exactly
  one line feed if and only if the body is empty or does not end with a line feed; this
  is so for every file that a run of the scaffolder writes.
\<close>

theorem written_files_end_with_newline:
  "write_events dest rel body
     = [Mkdirp (dirname (join [dest, rel])), WriteFile (join [dest, rel]) (body @ [CHR 0x0A])]
   \<and> (write_contents env dest rel c w = (Inr u, w') \<longrightarrow>
        (\<exists>body. data_of c = Inr body \<and> w' = record_events (write_events dest rel body) w))
   \<and> (clean env w (write_events dest rel (trimLeft s)) \<longrightarrow>
        write_contents env dest rel (CString s) w
          = (Inr (), record_events (write_events dest rel (trimLeft s)) w))
   \<and> leading_space (trimLeft s) = 0
   \<and> (\<exists>sps. set sps \<subseteq> set white_space \<and> s = concat sps @ trimLeft s)
   \<and> (clean env w (write_events dest rel (join_with [CHR 0x0A] xs)) \<longrightarrow>
        write_contents env dest rel (CArray xs) w
          = (Inr (), record_events (write_events dest rel (join_with [CHR 0x0A] xs)) w))
   \<and> (xs \<noteq> [] \<longrightarrow>
        join_with [CHR 0x0A] xs @ [CHR 0x0A] = concat (map (\<lambda>x. x @ [CHR 0x0A]) xs))
   \<and> (clean env w (write_events dest rel (stringify (JObject ps))) \<longrightarrow>
        write_contents env dest rel (CObject ps) w
          = (Inr (), record_events (write_events dest rel (stringify (JObject ps))) w))
   \<and> stringify (JObject [(''a'', JObject [(''b'', JArray [JBool True])]), (''c'', JString ''d'')])
       = ''{'' @ [CHR 0x0A] @ ''  '' @ [CHR 0x22] @ ''a'' @ [CHR 0x22] @ '': {'' @ [CHR 0x0A]
         @ ''    '' @ [CHR 0x22] @ ''b'' @ [CHR 0x22] @ '': ['' @ [CHR 0x0A]
         @ ''      true'' @ [CHR 0x0A]
         @ ''    ]'' @ [CHR 0x0A]
         @ ''  },'' @ [CHR 0x0A]
         @ ''  '' @ [CHR 0x22] @ ''c'' @ [CHR 0x22] @ '': '' @ [CHR 0x22] @ ''d'' @ [CHR 0x22]
         @ [CHR 0x0A] @ ''}''
   \<and> (clean env w (write_events dest rel ''null'') \<longrightarrow>
        write_contents env dest rel CNull w
          = (Inr (), record_events (write_events dest rel ''null'') w))
   \<and> (\<forall>x v'. write_contents env dest rel (COther v) w \<noteq> (Inr x, v'))
   \<and> (fs_fault env w (Mkdirp (dirname (join [dest, rel]))) = None \<longrightarrow>
        write_contents env dest rel (COther v) w
          = (Inl (Error (''Invalid type of contents: '' @ v)),
             record_events [Mkdirp (dirname (join [dest, rel]))] w))
   \<and> (one_trailing_newline (body @ [CHR 0x0A]) \<longleftrightarrow> body = [] \<or> last body \<noteq> CHR 0x0A)
   \<and> (files_well_ended w0 \<longrightarrow> files_well_ended (snd (run env0 w0)))"
proof -
  have events: "write_events dest rel body
      = [Mkdirp (dirname (join [dest, rel])), WriteFile (join [dest, rel]) (body @ [CHR 0x0A])]"
    by (simp add: write_events_def newline_def)
  have success: "write_contents env dest rel c w = (Inr u, w') \<longrightarrow>
      (\<exists>body. data_of c = Inr body \<and> w' = record_events (write_events dest rel body) w)"
    by (blast dest: write_contents_Inr)
  have trimmed: "clean env w (write_events dest rel (trimLeft s)) \<longrightarrow>
      write_contents env dest rel (CString s) w
        = (Inr (), record_events (write_events dest rel (trimLeft s)) w)"
    by (simp add: write_contents_clean data_of_def)
  have front: "leading_space (trimLeft s) = 0"
    by (rule trimLeft_done)
  have dropped: "\<exists>sps. set sps \<subseteq> set white_space \<and> s = concat sps @ trimLeft s"
    by (rule trimLeft_dropped)
  have joined: "clean env w (write_events dest rel (join_with [CHR 0x0A] xs)) \<longrightarrow>
      write_contents env dest rel (CArray xs) w
        = (Inr (), record_events (write_events dest rel (join_with [CHR 0x0A] xs)) w)"
    by (simp add: write_contents_clean data_of_def newline_def)
  have lines: "xs \<noteq> [] \<longrightarrow>
      join_with [CHR 0x0A] xs @ [CHR 0x0A] = concat (map (\<lambda>x. x @ [CHR 0x0A]) xs)"
    by (simp add: join_with_terminated)
  have serialised: "clean env w (write_events dest rel (stringify (JObject ps))) \<longrightarrow>
      write_contents env dest rel (CObject ps) w
        = (Inr (), record_events (write_events dest rel (stringify (JObject ps))) w)"
    by (simp add: write_contents_clean data_of_def)
  have indented:
    "stringify (JObject [(''a'', JObject [(''b'', JArray [JBool True])]), (''c'', JString ''d'')])
       = ''{'' @ [CHR 0x0A] @ ''  '' @ [CHR 0x22] @ ''a'' @ [CHR 0x22] @ '': {'' @ [CHR 0x0A]
         @ ''    '' @ [CHR 0x22] @ ''b'' @ [CHR 0x22] @ '': ['' @ [CHR 0x0A]
         @ ''      true'' @ [CHR 0x0A]
         @ ''    ]'' @ [CHR 0x0A]
         @ ''  },'' @ [CHR 0x0A]
         @ ''  '' @ [CHR 0x22] @ ''c'' @ [CHR 0x22] @ '': '' @ [CHR 0x22] @ ''d'' @ [CHR 0x22]
         @ [CHR 0x0A] @ ''}''"
    by (simp add: stringify_def bracketed_def quote_def escape_char_def indentation_def
        numeral_2_eq_2 numeral_3_eq_3 eval_nat_numeral)
  have null: "clean env w (write_events dest rel ''null'') \<longrightarrow>
      write_contents env dest rel CNull w
        = (Inr (), record_events (write_events dest rel ''null'') w)"
    by (simp add: write_contents_clean data_of_def stringify_def)
  have other: "\<forall>x v'. write_contents env dest rel (COther v) w \<noteq> (Inr x, v')"
    using write_contents_Inr [of env dest rel "COther v" w]
    by (auto simp: data_of_def)
  have invalid: "fs_fault env w (Mkdirp (dirname (join [dest, rel]))) = None \<longrightarrow>
      write_contents env dest rel (COther v) w
        = (Inl (Error (''Invalid type of contents: '' @ v)),
           record_events [Mkdirp (dirname (join [dest, rel]))] w)"
    by (simp add: write_contents_def Let_def mkdirp_def fs_call_def await_def lift_def
        data_of_def record_events_Cons record_events_Nil)
  have ending: "one_trailing_newline (body @ [CHR 0x0A]) \<longleftrightarrow> body = [] \<or> last body \<noteq> CHR 0x0A"
    using one_trailing_newline_snoc [of body] by (simp add: newline_def)
  have always: "files_well_ended w0 \<longrightarrow> files_well_ended (snd (run env0 w0))"
    by (simp add: files_well_ended_run)
  from events success trimmed front dropped joined lines serialised indented null other invalid
    ending always
  show ?thesis
    by (intro conjI)
qed

theorem written_files_end_with_newline_witness:
  "write_contents (example_env [] (ChildExit (Some 0))) ''/m'' ''lib/a.txt'' (CArray [''x'', ''y''])
       example_world
     = (Inr (), record_events
          [Mkdirp ''/m/lib'', WriteFile ''/m/lib/a.txt'' (''x'' @ [CHR 0x0A] @ ''y'' @ [CHR 0x0A])]
          example_world)
   \<and> (\<exists>body. data_of (CArray [''x'', ''y'']) = Inr body
         \<and> record_events
              [Mkdirp ''/m/lib'', WriteFile ''/m/lib/a.txt'' (''x'' @ [CHR 0x0A] @ ''y'' @ [CHR 0x0A])]
              example_world
            = record_events [Mkdirp ''/m/lib'', WriteFile ''/m/lib/a.txt'' (body @ [CHR 0x0A])]
                example_world)
   \<and> write_contents (example_env [] (ChildExit (Some 0))) ''/m'' ''lib/a.txt''
         (CString ([CHR 0x0A] @ ''  x'')) example_world
     = (Inr (), record_events
          [Mkdirp ''/m/lib'', WriteFile ''/m/lib/a.txt'' (''x'' @ [CHR 0x0A])] example_world)
   \<and> write_contents (example_env [] (ChildExit (Some 0))) ''/m'' ''lib/a.txt''
         (CObject [(''k'', JString ''v'')]) example_world
     = (Inr (), record_events
          [Mkdirp ''/m/lib'',
           WriteFile ''/m/lib/a.txt''
             (''{'' @ [CHR 0x0A] @ ''  '' @ [CHR 0x22] @ ''k'' @ [CHR 0x22] @ '': ''
              @ [CHR 0x22] @ ''v'' @ [CHR 0x22] @ [CHR 0x0A] @ ''}'' @ [CHR 0x0A])]
          example_world)
   \<and> write_contents (example_env [] (ChildExit (Some 0))) ''/m'' ''lib/a.txt'' CNull
         example_world
     = (Inr (), record_events
          [Mkdirp ''/m/lib'', WriteFile ''/m/lib/a.txt'' (''null'' @ [CHR 0x0A])] example_world)
   \<and> write_contents (example_env [] (ChildExit (Some 0))) ''/m'' ''lib/a.txt'' (COther ''42'')
         example_world
       = (Inl (Error ''Invalid type of contents: 42''),
          record_events [Mkdirp ''/m/lib''] example_world)
   \<and> files_well_ended example_world
   \<and> files_well_ended
        (snd (run (example_env [''Family::Widget''] (ChildExit (Some 0))) example_world))
   \<and> WriteFile ''/repo/packages/@aws-cdk/family-widget/.gitignore''
        (join_with [CHR 0x0A] gitignore @ [CHR 0x0A])
       \<in> set (trace (snd (run (example_env [''Family::Widget''] (ChildExit (Some 0)))
                              example_world)))"
proof -
  let ?env = "example_env [] (ChildExit (Some 0))"
  let ?run = "example_env [''Family::Widget''] (ChildExit (Some 0))"
  let ?after = "record_events
      (write_events ''/m'' ''lib/a.txt'' (join_with [CHR 0x0A] [''x'', ''y''])) example_world"
  have paths: "join [''/m'', ''lib/a.txt''] = ''/m/lib/a.txt''"
    "dirname ''/m/lib/a.txt'' = ''/m/lib''"
    by (simp_all add: path_defs)
  have quiet: "clean ?env example_world evs" for evs
    by (rule clean_no_fault) (simp add: example_env_simps)
  have fault: "fs_fault ?env example_world (Mkdirp (dirname (join [''/m'', ''lib/a.txt'']))) = None"
    by (simp add: example_env_simps)
  have "leading_space ''x'' = 0" "leading_space '' x'' = 1" "leading_space ''  x'' = 1"
    "leading_space ([CHR 0x0A] @ ''  x'') = 1"
    by (simp_all add: leading_space_def white_space_def)
  then have trim: "trimLeft ([CHR 0x0A] @ ''  x'') = ''x''"
    by (simp add: trimLeft_step [of _ 1] trimLeft_kept)
  have shown: "stringify (JObject [(''k'', JString ''v'')])
      = ''{'' @ [CHR 0x0A] @ ''  '' @ [CHR 0x22] @ ''k'' @ [CHR 0x22] @ '': ''
        @ [CHR 0x22] @ ''v'' @ [CHR 0x22] @ [CHR 0x0A] @ ''}''"
    by (simp add: stringify_def bracketed_def quote_def escape_char_def indentation_def
        numeral_2_eq_2 eval_nat_numeral)
  note facts = written_files_end_with_newline [where env = ?env and dest = "''/m''"
      and rel = "''lib/a.txt''" and w = example_world and xs = "[''x'', ''y'']"
      and s = "[CHR 0x0A] @ ''  x''" and ps = "[(''k'', JString ''v'')]" and v = "''42''"
      and c = "CArray [''x'', ''y'']" and u = "()" and w' = ?after
      and ?w0.0 = example_world and ?env0.0 = ?run]
  note events = facts [THEN conjunct1]
  note from_success = facts [THEN conjunct2]
  note from_string = from_success [THEN conjunct2]
  note from_array = from_string [THEN conjunct2, THEN conjunct2, THEN conjunct2]
  note from_object = from_array [THEN conjunct2, THEN conjunct2]
  note from_null = from_object [THEN conjunct2, THEN conjunct2]
  note from_invalid = from_null [THEN conjunct2, THEN conjunct2]
  have array: "write_contents ?env ''/m'' ''lib/a.txt'' (CArray [''x'', ''y'']) example_world
      = (Inr (), ?after)"
    by (rule from_array [THEN conjunct1, THEN mp]) (rule quiet)
  have found: "\<exists>body. data_of (CArray [''x'', ''y'']) = Inr body
      \<and> ?after = record_events (write_events ''/m'' ''lib/a.txt'' body) example_world"
    by (rule from_success [THEN conjunct1, THEN mp]) (rule array)
  have string: "write_contents ?env ''/m'' ''lib/a.txt'' (CString ([CHR 0x0A] @ ''  x''))
        example_world
      = (Inr (), record_events (write_events ''/m'' ''lib/a.txt'' (trimLeft ([CHR 0x0A] @ ''  x'')))
           example_world)"
    by (rule from_string [THEN conjunct1, THEN mp]) (rule quiet)
  have object: "write_contents ?env ''/m'' ''lib/a.txt'' (CObject [(''k'', JString ''v'')])
        example_world
      = (Inr (), record_events
           (write_events ''/m'' ''lib/a.txt'' (stringify (JObject [(''k'', JString ''v'')])))
           example_world)"
    by (rule from_object [THEN conjunct1, THEN mp]) (rule quiet)
  have null: "write_contents ?env ''/m'' ''lib/a.txt'' CNull example_world
      = (Inr (), record_events (write_events ''/m'' ''lib/a.txt'' ''null'') example_world)"
    by (rule from_null [THEN conjunct1, THEN mp]) (rule quiet)
  have other: "write_contents ?env ''/m'' ''lib/a.txt'' (COther ''42'') example_world
      = (Inl (Error (''Invalid type of contents: '' @ ''42'')),
         record_events [Mkdirp (dirname (join [''/m'', ''lib/a.txt'']))] example_world)"
    by (rule from_invalid [THEN conjunct1, THEN mp]) (rule fault)
  have start: "files_well_ended example_world"
    by (simp add: files_well_ended_def example_world_def)
  have ended: "files_well_ended (snd (run ?run example_world))"
    by (rule from_invalid [THEN conjunct2, THEN conjunct2, THEN mp]) (rule start)
  have ignore: "join [''/repo/packages/@aws-cdk/family-widget'', ''.gitignore'']
      = ''/repo/packages/@aws-cdk/family-widget/.gitignore''"
    by (simp add: path_defs)
  have "WriteFile (join [pacakgePath NotTurkic example_root ''Family::Widget'', ''.gitignore''])
      (join_with [CHR 0x0A] gitignore @ [CHR 0x0A])
     \<in> set (file_events NotTurkic example_root ''1.2.3'' ''Family::Widget'' ''Widget'')"
    by (simp add: file_events_def Let_def write_events_def newline_def)
  then have listed: "WriteFile ''/repo/packages/@aws-cdk/family-widget/.gitignore''
      (join_with [CHR 0x0A] gitignore @ [CHR 0x0A])
     \<in> set (trace (snd (run ?run example_world)))"
    by (simp add: run_def example_generation trace_record_events emitted_events_def
        widget_names ignore del: append.simps)
  have lines: "join_with [CHR 0x0A] [''x'', ''y''] = ''x'' @ [CHR 0x0A] @ ''y''"
    by simp
  note shape = events paths trim [unfolded append_Cons append_Nil] shown lines append_assoc
    append_Nil append_Cons
  from array [unfolded shape] found [unfolded shape] string [unfolded shape]
    object [unfolded shape] null [unfolded shape] other [unfolded shape] start ended listed
  show ?thesis
    by simp
qed

theorem write_helper_counterexample:
  "write_contents (example_env [] (ChildExit (Some 0))) ''/m'' ''a.txt''
       (CString (''a'' @ [CHR 0x0A])) example_world
     = (Inr (), record_events
          [Mkdirp ''/m'', WriteFile ''/m/a.txt'' (''a'' @ [CHR 0x0A, CHR 0x0A])] example_world)
   \<and> write_contents (example_env [] (ChildExit (Some 0))) ''/m'' ''a.txt''
       (CArray [''a'', '''']) example_world
     = (Inr (), record_events
          [Mkdirp ''/m'', WriteFile ''/m/a.txt'' (''a'' @ [CHR 0x0A, CHR 0x0A])] example_world)
   \<and> \<not> one_trailing_newline (''a'' @ [CHR 0x0A, CHR 0x0A])
   \<and> write_contents (example_env [] (ChildExit (Some 0))) ''/m'' ''a.txt'' CNull example_world
     = (Inr (), record_events
          [Mkdirp ''/m'', WriteFile ''/m/a.txt'' (''null'' @ [CHR 0x0A])] example_world)"
proof -
  let ?env = "example_env [] (ChildExit (Some 0))"
  have paths: "join [''/m'', ''a.txt''] = ''/m/a.txt''" "dirname ''/m/a.txt'' = ''/m''"
    by (simp_all add: path_defs)
  have quiet: "clean ?env example_world evs" for evs
    by (rule clean_no_fault) (simp add: example_env_simps)
  have "leading_space (''a'' @ [CHR 0x0A]) = 0"
    by (simp add: leading_space_def white_space_def)
  then have trim: "trimLeft (''a'' @ [CHR 0x0A]) = ''a'' @ [CHR 0x0A]"
    by (rule trimLeft_kept)
  have string: "write_contents ?env ''/m'' ''a.txt'' (CString (''a'' @ [CHR 0x0A])) example_world
      = (Inr (), record_events (write_events ''/m'' ''a.txt'' (''a'' @ [CHR 0x0A])) example_world)"
    by (rule write_contents_clean [OF _ quiet]) (simp only: data_of_def contents.case trim)
  have array: "write_contents ?env ''/m'' ''a.txt'' (CArray [''a'', '''']) example_world
      = (Inr (), record_events (write_events ''/m'' ''a.txt'' (''a'' @ [CHR 0x0A])) example_world)"
    using write_contents_clean [OF _ quiet, of "CArray [''a'', '''']" "''a'' @ [CHR 0x0A]"]
    by (simp add: data_of_def newline_def)
  have null: "write_contents ?env ''/m'' ''a.txt'' CNull example_world
      = (Inr (), record_events (write_events ''/m'' ''a.txt'' ''null'') example_world)"
    using write_contents_clean [OF _ quiet, of CNull "''null''"]
    by (simp add: data_of_def stringify_def)
  have twice: "\<not> one_trailing_newline (''a'' @ [CHR 0x0A, CHR 0x0A])"
    by (simp add: one_trailing_newline_def)
  from string array null twice show ?thesis
    by (simp add: write_events_def newline_def paths)
qed

end
